theory Spec2Isabelle
  imports Main "HOL-Library.Sublist"
begin

section \<open>JavaScript strings\<close>

text \<open>
  A JavaScript string is a sequence of UTF-16 code units. The model uses \<^typ>\<open>string\<close>,
  whose characters have 256 values, so it covers the strings whose code units lie in
  U+0000..U+00FF (Latin-1); every literal of \<^verbatim>\<open>index.tsx\<close> is of that kind. The
  Spanish letters of the literals are written by their code unit.
\<close>

definition a_acute :: char where "a_acute = CHR 0xE1"
definition e_acute :: char where "e_acute = CHR 0xE9"
definition o_acute :: char where "o_acute = CHR 0xF3"
definition n_tilde :: char where "n_tilde = CHR 0xF1"

text \<open>\<^verbatim>\<open>String.prototype.includes\<close>: the pattern occurs as a contiguous substring.\<close>

fun str_includes :: "string \<Rightarrow> string \<Rightarrow> bool" where
  "str_includes [] pat = (pat = [])"
| "str_includes (c # s) pat = (prefix pat (c # s) \<or> str_includes s pat)"

text \<open>
  \<^verbatim>\<open>String.prototype.toLowerCase\<close> on Latin-1 code units: A..Z and the accented capitals
  U+00C0..U+00DE (without the multiplication sign U+00D7) move up by 32.
\<close>

definition lowerChar :: "char \<Rightarrow> char" where
  "lowerChar c =
     (let n = (of_char c :: nat) in
      if (65 \<le> n \<and> n \<le> 90) \<or> (192 \<le> n \<and> n \<le> 222 \<and> n \<noteq> 215)
      then char_of (n + 32) else c)"

definition toLowerCase :: "string \<Rightarrow> string" where
  "toLowerCase s = map lowerChar s"

text \<open>
  \<^verbatim>\<open>String.prototype.trim\<close> removes white space and line terminators from both ends;
  in Latin-1 these are TAB, LF, VT, FF, CR, SPACE and NBSP.
\<close>

definition isWhiteSpace :: "char \<Rightarrow> bool" where
  "isWhiteSpace c = (of_char c \<in> {9, 10, 11, 12, 13, 32, 160 :: nat})"

definition trim :: "string \<Rightarrow> string" where
  "trim s = rev (dropWhile isWhiteSpace (rev (dropWhile isWhiteSpace s)))"

text \<open>Truthiness of a string (\<^verbatim>\<open>!prompt\<close>, \<^verbatim>\<open>!apiKey\<close>): the empty string is falsy.\<close>

definition truthy :: "string \<Rightarrow> bool" where
  "truthy s = (s \<noteq> [])"

section \<open>Data model\<close>

datatype tab = Generate | Combine

record ImageData =
  base64 :: string
  mimeType :: string

text \<open>
  Modelled from the spec: the declarations of \<^verbatim>\<open>@google/genai\<close> (\<^verbatim>\<open>Part\<close>, the two
  request shapes and the two response shapes) are not in the repository. The
  specification's interface section gives them: a part is inline binary image data with a
  MIME type, or plain text; the image endpoint answers with an ordered list of generated
  images, each exposing its bytes; the multimodal endpoint answers with an ordered list of
  candidates, each with an ordered list of parts. A part is written with both fields
  optional, as the program builds it (\<^verbatim>\<open>{inlineData: ...}\<close>, \<^verbatim>\<open>{text: ...}\<close>) and tests it
  (\<^verbatim>\<open>if (part.inlineData)\<close>).
\<close>

record Blob =
  blob_mimeType :: string
  blob_data :: string

record Part =
  inlineData :: "Blob option"
  text_of :: "string option"

datatype Modality = IMAGE | TEXT

record GenerateImagesParams =
  gi_apiKey :: string
  gi_model :: string
  gi_prompt :: string

record GenerateContentParams =
  gc_apiKey :: string
  gc_model :: string
  gc_parts :: "Part list"
  gc_responseModalities :: "Modality list"

text \<open>Responses of the two endpoints. \<^verbatim>\<open>generatedImages\<close> may be undefined, as the
  program tests it (\<^verbatim>\<open>images === undefined\<close>).\<close>

record GeneratedImage =
  imageBytes :: string

record GenerateImagesResponse =
  generatedImages :: "GeneratedImage list option"

record Candidate =
  content_parts :: "Part list"

record GenerateContentResponse =
  candidates :: "Candidate list"

text \<open>A thrown value: an \<^verbatim>\<open>Error\<close> with its message, or any other value.\<close>

datatype thrown = JsError string | NonError

text \<open>The content of the status element: written through \<^verbatim>\<open>innerHTML\<close> or through
  \<^verbatim>\<open>innerText\<close>.\<close>

datatype status_content = InnerHTML string | InnerText string

text \<open>What the program does to the outside, in order: every status it writes, every call
  of the host's key-selection dialog, every request to the remote service, every console
  error.\<close>

datatype effect =
    ShowStatusError string
  | SetStatusText string
  | OpenSelectKey
  | GenerateImagesCall GenerateImagesParams
  | GenerateContentCall GenerateContentParams
  | ConsoleError string thrown

text \<open>One upload area: the slot index its handlers closed over, and its visuals.\<close>

record upload_area =
  area_index :: nat
  placeholder_display :: string
  preview_src :: string
  preview_display :: string
  pointerEvents :: string
  dragover :: bool

text \<open>The module's state variables and the DOM elements it selects.\<close>

record app =
  activeTab :: tab
  images :: "ImageData option list"
  promptGenerateEl_value :: string
  promptCombineEl_value :: string
  promptGenerateEl_disabled :: bool
  promptCombineEl_disabled :: bool
  generateButton_disabled :: bool
  generateButton_textContent :: string
  addImageButton_disabled :: bool
  statusEl :: status_content
  outputImage_src :: string
  outputImage_display :: string
  downloadButton_display :: string
  tabGenerate_className :: string
  tabCombine_className :: string
  panelGenerate_display :: string
  panelCombine_display :: string
  areas :: "upload_area list"
  effects :: "effect list"

text \<open>
  What one run of \<^verbatim>\<open>performGeneration\<close> meets outside the program: the configured
  credential, the host's dialog (\<open>None\<close> when \<^verbatim>\<open>window.aistudio?.openSelectKey\<close> is
  missing, otherwise how the awaited call ends), the outcome of each remote call as a
  function of the request, and the engine's message for the \<^verbatim>\<open>TypeError\<close> of reading
  a property of \<^verbatim>\<open>undefined\<close>.
\<close>

record env =
  API_KEY :: "string option"
  openSelectKey :: "thrown option option"
  generateImages :: "GenerateImagesParams \<Rightarrow> thrown + GenerateImagesResponse"
  generateContent :: "GenerateContentParams \<Rightarrow> thrown + GenerateContentResponse"
  typeErrorMessage :: string

text \<open>An asynchronous function ends normally (\<open>None\<close>) or rejects with a thrown value,
  and leaves a state.\<close>

type_synonym outcome = "thrown option \<times> app"

section \<open>Messages\<close>

definition msg_dialog_unavailable :: string where
  "msg_dialog_unavailable =
     ''La selecci'' @ [o_acute] @ ''n de clave de API no est'' @ [a_acute]
     @ '' disponible. Por favor, configura la variable de entorno API_KEY.''"

definition msg_no_images :: string where
  "msg_no_images =
     ''No se generaron im'' @ [a_acute]
     @ ''genes. El prompt puede haber sido bloqueado.''"

definition msg_no_combined :: string where
  "msg_no_combined =
     ''No se pudo generar una imagen combinada. Intenta con un prompt diferente.''"

definition msg_no_key :: string where
  "msg_no_key =
     ''Clave de API no configurada. Por favor, a'' @ [n_tilde]
     @ ''ade tu clave de API.''"

definition msg_need_prompt :: string where
  "msg_need_prompt = ''Por favor, introduce un prompt para generar una imagen.''"

definition msg_generating :: string where
  "msg_generating = ''Generando imagen...''"

definition msg_need_two :: string where
  "msg_need_two =
     ''Por favor, sube al menos dos im'' @ [a_acute] @ ''genes para combinar.''"

definition msg_need_combine_prompt :: string where
  "msg_need_combine_prompt =
     ''Por favor, describe c'' @ [o_acute] @ ''mo combinar las im'' @ [a_acute]
     @ ''genes.''"

definition msg_combining :: string where
  "msg_combining = ''Combinando im'' @ [a_acute] @ ''genes...''"

definition msg_success :: string where
  "msg_success = ''Imagen generada con '' @ [e_acute] @ ''xito.''"

definition msg_console :: string where
  "msg_console =
     ''La generaci'' @ [o_acute] @ ''n de imagen fall'' @ [o_acute] @ '':''"

definition msg_unknown :: string where
  "msg_unknown = ''Ocurri'' @ [o_acute] @ '' un error desconocido.''"

definition msg_model_not_found :: string where
  "msg_model_not_found =
     ''Modelo no encontrado. Esto puede ser causado por una clave de API inv''
     @ [a_acute]
     @ ''lida o problemas de permisos. Por favor, verifica tu clave de API.''"

definition msg_key_invalid :: string where
  "msg_key_invalid =
     ''Tu clave de API es inv'' @ [a_acute] @ ''lida. Por favor, a'' @ [n_tilde]
     @ ''ade una clave de API v'' @ [a_acute] @ ''lida.''"

definition class_tab_active :: string where
  "class_tab_active =
     ''whitespace-nowrap py-4 px-1 border-b-2 font-medium text-sm text-blue-400 border-blue-400''"

definition class_tab_inactive :: string where
  "class_tab_inactive =
     ''whitespace-nowrap py-4 px-1 border-b-2 font-medium text-sm text-gray-500 border-transparent hover:text-gray-300 hover:border-gray-500''"

section \<open>Status and controls\<close>

definition errorSpan :: "string \<Rightarrow> string" where
  \<open>errorSpan message = ''<span class="text-red-400">'' @ message @ ''</span>''\<close>

definition showStatusError :: "string \<Rightarrow> app \<Rightarrow> app" where
  "showStatusError message s =
     s\<lparr>statusEl := InnerHTML (errorSpan message),
       effects := effects s @ [ShowStatusError message]\<rparr>"

definition setStatusText :: "string \<Rightarrow> app \<Rightarrow> app" where
  "setStatusText t s =
     s\<lparr>statusEl := InnerText t, effects := effects s @ [SetStatusText t]\<rparr>"

definition setControlsDisabled :: "bool \<Rightarrow> app \<Rightarrow> app" where
  "setControlsDisabled disabled s =
     s\<lparr>generateButton_disabled := disabled,
       promptGenerateEl_disabled := disabled,
       promptCombineEl_disabled := disabled,
       addImageButton_disabled := disabled,
       areas := map (\<lambda>area. area\<lparr>pointerEvents := (if disabled then ''none'' else ''auto'')\<rparr>)
                  (areas s)\<rparr>"

definition openApiKeyDialog :: "env \<Rightarrow> app \<Rightarrow> outcome" where
  "openApiKeyDialog e s =
     (case openSelectKey e of
        Some r \<Rightarrow> (r, s\<lparr>effects := effects s @ [OpenSelectKey]\<rparr>)
      | None \<Rightarrow> (None, showStatusError msg_dialog_unavailable s))"

section \<open>Remote client adapter\<close>

text \<open>The request \<^verbatim>\<open>generateImage\<close> sends.\<close>

definition generateImagesParams :: "string \<Rightarrow> string \<Rightarrow> GenerateImagesParams" where
  "generateImagesParams prompt apiKey =
     \<lparr>gi_apiKey = apiKey, gi_model = ''imagen-4.0-generate-001'', gi_prompt = prompt\<rparr>"

definition generateImage :: "string \<Rightarrow> string \<Rightarrow> env \<Rightarrow> app \<Rightarrow> outcome" where
  "generateImage prompt apiKey e s =
     (let req = generateImagesParams prompt apiKey;
          s1 = s\<lparr>effects := effects s @ [GenerateImagesCall req]\<rparr>
      in case generateImages e req of
           Inl err \<Rightarrow> (Some err, s1)
         | Inr response \<Rightarrow>
             (case generatedImages response of
                None \<Rightarrow> (Some (JsError msg_no_images), s1)
              | Some [] \<Rightarrow> (Some (JsError msg_no_images), s1)
              | Some (img # _) \<Rightarrow>
                  (None,
                   s1\<lparr>outputImage_src := ''data:image/jpeg;base64,'' @ imageBytes img,
                      outputImage_display := ''block'',
                      downloadButton_display := ''block''\<rparr>)))"

text \<open>The \<^verbatim>\<open>for ... of\<close> loop over the parts of the first candidate: it stops at the
  first part whose \<^verbatim>\<open>inlineData\<close> is present, and returns \<^verbatim>\<open>generatedImageFound\<close>.\<close>

fun scanParts :: "Part list \<Rightarrow> app \<Rightarrow> bool \<times> app" where
  "scanParts [] s = (False, s)"
| "scanParts (part # rest) s =
     (case inlineData part of
        Some b \<Rightarrow>
          (True,
           s\<lparr>outputImage_src := ''data:'' @ blob_mimeType b @ '';base64,'' @ blob_data b,
             outputImage_display := ''block'',
             downloadButton_display := ''block''\<rparr>)
      | None \<Rightarrow> scanParts rest s)"

text \<open>The request \<^verbatim>\<open>combineImages\<close> sends: one inline part per image, then the text.\<close>

definition generateContentParams :: "string \<Rightarrow> ImageData list \<Rightarrow> string \<Rightarrow> GenerateContentParams" where
  "generateContentParams prompt imageList apiKey =
     (let imageParts =
            map (\<lambda>image. \<lparr>inlineData = Some \<lparr>blob_mimeType = mimeType image,
                                              blob_data = base64 image\<rparr>,
                          text_of = None\<rparr>) imageList;
          textPart = \<lparr>inlineData = None, text_of = Some prompt\<rparr>
      in \<lparr>gc_apiKey = apiKey, gc_model = ''gemini-2.5-flash-image-preview'',
          gc_parts = imageParts @ [textPart],
          gc_responseModalities = [IMAGE, TEXT]\<rparr>)"

text \<open>Reading \<^verbatim>\<open>response.candidates[0].content\<close> of an empty candidate list throws a
  \<^verbatim>\<open>TypeError\<close>.\<close>

definition combineImages :: "string \<Rightarrow> ImageData list \<Rightarrow> string \<Rightarrow> env \<Rightarrow> app \<Rightarrow> outcome" where
  "combineImages prompt imageList apiKey e s =
     (let req = generateContentParams prompt imageList apiKey;
          s1 = s\<lparr>effects := effects s @ [GenerateContentCall req]\<rparr>
      in case generateContent e req of
           Inl err \<Rightarrow> (Some err, s1)
         | Inr response \<Rightarrow>
             (case candidates response of
                [] \<Rightarrow> (Some (JsError (typeErrorMessage e)), s1)
              | c # _ \<Rightarrow>
                  (let (generatedImageFound, s2) = scanParts (content_parts c) s1
                   in if \<not> generatedImageFound
                      then (Some (JsError msg_no_combined), s2)
                      else (None, s2))))"

section \<open>Slots, upload areas and tabs\<close>

text \<open>
  \<^verbatim>\<open>images[index] = imageData\<close>. Inside the array the element is replaced; beyond its end
  JavaScript extends the array, leaving holes. A hole and \<^verbatim>\<open>null\<close> are both written
  \<open>None\<close>: \<^verbatim>\<open>filter\<close> skips the one and the callback rejects the other, and the program
  reads the array in no other way.
\<close>

definition assignIndex :: "'a option list \<Rightarrow> nat \<Rightarrow> 'a \<Rightarrow> 'a option list" where
  "assignIndex xs i v =
     (if i < length xs then xs[i := Some v]
      else xs @ replicate (i - length xs) None @ [Some v])"

definition onImageLoaded :: "nat \<Rightarrow> ImageData \<Rightarrow> app \<Rightarrow> app" where
  "onImageLoaded index imageData s = s\<lparr>images := assignIndex (images s) index imageData\<rparr>"

text \<open>
  The rest of the \<^verbatim>\<open>change\<close> and \<^verbatim>\<open>drop\<close> handlers of the area at position \<open>k\<close> once
  \<^verbatim>\<open>fileToBase64\<close> has resolved with \<open>imageData\<close>. A position with no area has no handler.
\<close>

definition fileDecoded :: "nat \<Rightarrow> ImageData \<Rightarrow> app \<Rightarrow> app" where
  "fileDecoded k imageData s =
     (if k < length (areas s) then
        (let area = areas s ! k;
             s1 = onImageLoaded (area_index area) imageData s
         in s1\<lparr>areas := (areas s1)[k := area
                 \<lparr>preview_src := ''data:'' @ mimeType imageData @ '';base64,'' @ base64 imageData,
                  placeholder_display := ''none'',
                  preview_display := ''block''\<rparr>]\<rparr>)
      else s)"

definition setDragover :: "nat \<Rightarrow> bool \<Rightarrow> app \<Rightarrow> app" where
  "setDragover k b s =
     (if k < length (areas s) then s\<lparr>areas := (areas s)[k := (areas s ! k)\<lparr>dragover := b\<rparr>]\<rparr>
      else s)"

text \<open>The click handler of the add-image button: a new area, a new empty slot, and the
  area's handlers close over the slot's index. The markup of the new area (its label and
  alternative text carry \<^verbatim>\<open>newIndex + 1\<close>) is read by nothing and is left out.\<close>

definition addImage :: "app \<Rightarrow> app" where
  "addImage s =
     (let newIndex = length (images s);
          newUploadArea = \<lparr>area_index = newIndex, placeholder_display = [],
                           preview_src = [], preview_display = [],
                           pointerEvents = [], dragover = False\<rparr>
      in s\<lparr>areas := areas s @ [newUploadArea], images := images s @ [None]\<rparr>)"

text \<open>
  The start-up loop over the areas already in the document: each pushes an empty slot and
  is set up with its position as index. The state before it has the areas of the page and
  no slot.
\<close>

definition setupExisting :: "app \<Rightarrow> app" where
  "setupExisting s =
     foldl (\<lambda>s index. s\<lparr>images := images s @ [None],
                          areas := (areas s)[index := (areas s ! index)\<lparr>area_index := index\<rparr>]\<rparr>)
           (s\<lparr>images := []\<rparr>) [0..<length (areas s)]"

definition switchTab :: "tab \<Rightarrow> app \<Rightarrow> app" where
  "switchTab t s =
     (if t = Generate then
        s\<lparr>activeTab := t,
          tabGenerate_className := class_tab_active,
          tabCombine_className := class_tab_inactive,
          panelGenerate_display := ''block'',
          panelCombine_display := ''none'',
          generateButton_textContent := ''Generar''\<rparr>
      else
        s\<lparr>activeTab := t,
          tabCombine_className := class_tab_active,
          tabGenerate_className := class_tab_inactive,
          panelGenerate_display := ''none'',
          panelCombine_display := ''block'',
          generateButton_textContent := ''Combinar''\<rparr>)"

section \<open>Request orchestrator\<close>

text \<open>\<^verbatim>\<open>images.filter((img) => img !== null)\<close>.\<close>

definition validImagesOf :: "app \<Rightarrow> ImageData list" where
  "validImagesOf s = map the (filter (\<lambda>img. img \<noteq> None) (images s))"

text \<open>The \<^verbatim>\<open>catch\<close> block. \<^verbatim>\<open>errorMessage\<close> is the message of an \<^verbatim>\<open>Error\<close> and a
  fixed text for any other thrown value; it is a string, so the \<^verbatim>\<open>typeof\<close> test holds.\<close>

fun errorMessageOf :: "thrown \<Rightarrow> string" where
  "errorMessageOf (JsError m) = m"
| "errorMessageOf NonError = msg_unknown"

definition catchBlock :: "env \<Rightarrow> thrown \<Rightarrow> app \<Rightarrow> outcome" where
  "catchBlock e err s =
     (let s1 = s\<lparr>effects := effects s @ [ConsoleError msg_console err]\<rparr>;
          errorMessage = errorMessageOf err;
          (userFriendlyMessage, shouldOpenDialog) =
            (if str_includes errorMessage ''Requested entity was not found.''
             then (msg_model_not_found, True)
             else if str_includes errorMessage ''API_KEY_INVALID''
                     \<or> str_includes errorMessage ''API key not valid''
                     \<or> str_includes (toLowerCase errorMessage) ''permission denied''
             then (msg_key_invalid, True)
             else (''Error: '' @ errorMessage, False));
          s2 = showStatusError userFriendlyMessage s1
      in if shouldOpenDialog then openApiKeyDialog e s2 else (None, s2))"

text \<open>The \<^verbatim>\<open>try\<close> statement: the body, the \<^verbatim>\<open>catch\<close> block when the body throws, and
  the \<^verbatim>\<open>finally\<close> block on every way out.\<close>

definition tryRequest :: "string \<Rightarrow> string \<Rightarrow> env \<Rightarrow> app \<Rightarrow> outcome" where
  "tryRequest prompt apiKey e s =
     (let (r, s1) =
            (if activeTab s = Generate then generateImage prompt apiKey e s
             else combineImages prompt (validImagesOf s) apiKey e s);
          (r2, s2) =
            (case r of
               None \<Rightarrow> (None, setStatusText msg_success s1)
             | Some err \<Rightarrow> catchBlock e err s1)
      in (r2, setControlsDisabled False s2))"

text \<open>From the point where every check has passed: the previous output is hidden, the
  controls are disabled, and the \<^verbatim>\<open>try\<close> statement runs.\<close>

definition startRequest :: "string \<Rightarrow> string \<Rightarrow> env \<Rightarrow> app \<Rightarrow> outcome" where
  "startRequest prompt apiKey e s =
     tryRequest prompt apiKey e
       (setControlsDisabled True
          (s\<lparr>outputImage_display := ''none'', downloadButton_display := ''none''\<rparr>))"

definition performGeneration :: "env \<Rightarrow> app \<Rightarrow> outcome" where
  "performGeneration e s =
     (case API_KEY e of
        None \<Rightarrow> openApiKeyDialog e (showStatusError msg_no_key s)
      | Some apiKey \<Rightarrow>
          if \<not> truthy apiKey then openApiKeyDialog e (showStatusError msg_no_key s)
          else if activeTab s = Generate then
            (let prompt = trim (promptGenerateEl_value s)
             in if \<not> truthy prompt then (None, showStatusError msg_need_prompt s)
                else startRequest prompt apiKey e (setStatusText msg_generating s))
          else
            (let prompt = trim (promptCombineEl_value s);
                 validImages = validImagesOf s
             in if length validImages < 2 then (None, showStatusError msg_need_two s)
                else if \<not> truthy prompt
                then (None, showStatusError msg_need_combine_prompt s)
                else startRequest prompt apiKey e (setStatusText msg_combining s)))"

section \<open>Events\<close>

text \<open>
  The handlers the page can run, one per event: a tab click, the add-image click, the
  end of a file read in an area, the drag events of an area, typing in a prompt field, and
  the primary action with what it meets outside. A run is any sequence of events: the
  browser delivers fewer (none to a disabled control), so what holds of every run holds of
  every run of the page.
\<close>

datatype event =
    TabClick tab
  | AddImageClick
  | FileDecoded nat ImageData
  | DragOver nat
  | DragLeave nat
  | Drop nat
  | TypeGenerate string
  | TypeCombine string
  | PrimaryClick env

fun handle :: "event \<Rightarrow> app \<Rightarrow> app" where
  "handle (TabClick t) s = switchTab t s"
| "handle AddImageClick s = addImage s"
| "handle (FileDecoded k d) s = fileDecoded k d s"
| "handle (DragOver k) s = setDragover k True s"
| "handle (DragLeave k) s = setDragover k False s"
| "handle (Drop k) s = setDragover k False s"
| "handle (TypeGenerate v) s = s\<lparr>promptGenerateEl_value := v\<rparr>"
| "handle (TypeCombine v) s = s\<lparr>promptCombineEl_value := v\<rparr>"
| "handle (PrimaryClick e) s = snd (performGeneration e s)"

fun run :: "event list \<Rightarrow> app \<Rightarrow> app" where
  "run [] s = s"
| "run (ev # evs) s = run evs (handle ev s)"

section \<open>Notions of the specification\<close>

text \<open>The requests to the remote service among the effects.\<close>

fun isNetworkCall :: "effect \<Rightarrow> bool" where
  "isNetworkCall (GenerateImagesCall _) = True"
| "isNetworkCall (GenerateContentCall _) = True"
| "isNetworkCall _ = False"

definition networkCalls :: "app \<Rightarrow> effect list" where
  "networkCalls s = filter isNetworkCall (effects s)"

text \<open>The number of populated slots.\<close>

definition populatedSlots :: "app \<Rightarrow> nat" where
  "populatedSlots s = length (filter (\<lambda>img. img \<noteq> None) (images s))"

text \<open>A prompt that is empty or has white space only.\<close>

definition blank :: "string \<Rightarrow> bool" where
  "blank p = list_all isWhiteSpace p"

text \<open>The credential is absent: undefined, or the empty string.\<close>

definition credentialAbsent :: "env \<Rightarrow> bool" where
  "credentialAbsent e = (API_KEY e = None \<or> API_KEY e = Some [])"

text \<open>The prompt field of the active mode.\<close>

definition activePrompt :: "app \<Rightarrow> string" where
  "activePrompt s =
     (if activeTab s = Generate then promptGenerateEl_value s else promptCombineEl_value s)"

text \<open>The trigger stops at a pre-request failure: missing credential, blank prompt, or
  fewer than two populated slots in combine mode.\<close>

definition stopsBeforeRequest :: "env \<Rightarrow> app \<Rightarrow> bool" where
  "stopsBeforeRequest e s =
     (credentialAbsent e \<or> blank (activePrompt s)
      \<or> (activeTab s = Combine \<and> populatedSlots s < 2))"

text \<open>The request of the active mode, and the remote call rejecting it with \<open>err\<close> or
  answering it.\<close>

definition remoteRejects :: "env \<Rightarrow> app \<Rightarrow> thrown \<Rightarrow> bool" where
  "remoteRejects e s err =
     (case API_KEY e of
        None \<Rightarrow> False
      | Some apiKey \<Rightarrow>
          (if activeTab s = Generate
           then generateImages e (generateImagesParams (trim (activePrompt s)) apiKey) = Inl err
           else generateContent e
                  (generateContentParams (trim (activePrompt s)) (validImagesOf s) apiKey)
                = Inl err))"

definition requestOf :: "env \<Rightarrow> app \<Rightarrow> effect" where
  "requestOf e s =
     (let apiKey = (case API_KEY e of Some k \<Rightarrow> k | None \<Rightarrow> [])
      in if activeTab s = Generate
         then GenerateImagesCall (generateImagesParams (trim (activePrompt s)) apiKey)
         else GenerateContentCall
                (generateContentParams (trim (activePrompt s)) (validImagesOf s) apiKey))"

definition generateAnswers :: "env \<Rightarrow> app \<Rightarrow> GenerateImagesResponse \<Rightarrow> bool" where
  "generateAnswers e s response =
     (case API_KEY e of
        None \<Rightarrow> False
      | Some apiKey \<Rightarrow>
          generateImages e (generateImagesParams (trim (activePrompt s)) apiKey)
          = Inr response)"

text \<open>
  The specification's "case-insensitively contains", stated without the program's
  \<^verbatim>\<open>toLowerCase\<close>: two characters are the same ignoring case when they are equal or one
  is the capital of the other in the table of the twenty-six letters; a message contains a
  pattern ignoring case when, from some position on, its characters are the same as the
  pattern's ignoring case.
\<close>

definition letterPairs :: "(char \<times> char) list" where
  "letterPairs = zip ''ABCDEFGHIJKLMNOPQRSTUVWXYZ'' ''abcdefghijklmnopqrstuvwxyz''"

definition sameIgnoringCase :: "char \<Rightarrow> char \<Rightarrow> bool" where
  "sameIgnoringCase c p = (c = p \<or> (c, p) \<in> set letterPairs \<or> (p, c) \<in> set letterPairs)"

fun startsIgnoringCase :: "string \<Rightarrow> string \<Rightarrow> bool" where
  "startsIgnoringCase [] s = True"
| "startsIgnoringCase (p # ps) [] = False"
| "startsIgnoringCase (p # ps) (c # s) = (sameIgnoringCase c p \<and> startsIgnoringCase ps s)"

fun containsIgnoringCase :: "string \<Rightarrow> string \<Rightarrow> bool" where
  "containsIgnoringCase [] pat = (pat = [])"
| "containsIgnoringCase (c # s) pat =
     (startsIgnoringCase pat (c # s) \<or> containsIgnoringCase s pat)"

text \<open>A small letter a..z or a space: the characters of the pattern
  \<^verbatim>\<open>permission denied\<close>.\<close>

definition smallOrSpace :: "char \<Rightarrow> bool" where
  "smallOrSpace p = ((97 \<le> (of_char p :: nat) \<and> (of_char p :: nat) \<le> 122) \<or> p = CHR '' '')"

text \<open>Every upload area closed over the index of an existing slot.\<close>

definition indexes_ok :: "app \<Rightarrow> bool" where
  "indexes_ok s = list_all (\<lambda>a. area_index a < length (images s)) (areas s)"

text \<open>The status the run starts a request with.\<close>

definition startMessage :: "app \<Rightarrow> string" where
  "startMessage s = (if activeTab s = Generate then msg_generating else msg_combining)"

text \<open>All controls enabled: the primary action, both prompt fields, the add-image button,
  and pointer interaction on every upload area.\<close>

definition controlsEnabled :: "app \<Rightarrow> bool" where
  "controlsEnabled s =
     (generateButton_disabled s = False \<and> promptGenerateEl_disabled s = False
      \<and> promptCombineEl_disabled s = False \<and> addImageButton_disabled s = False
      \<and> map pointerEvents (areas s) = replicate (length (areas s)) ''auto'')"

definition controlsDisabled :: "app \<Rightarrow> bool" where
  "controlsDisabled s =
     (generateButton_disabled s = True \<and> promptGenerateEl_disabled s = True
      \<and> promptCombineEl_disabled s = True \<and> addImageButton_disabled s = True
      \<and> map pointerEvents (areas s) = replicate (length (areas s)) ''none'')"

text \<open>What a call of \<^verbatim>\<open>openApiKeyDialog\<close> leaves among the effects: the call of the
  host's dialog, or the fallback message when the host has none.\<close>

definition dialogEffects :: "env \<Rightarrow> effect list" where
  "dialogEffects e =
     (case openSelectKey e of
        Some r \<Rightarrow> [OpenSelectKey]
      | None \<Rightarrow> [ShowStatusError msg_dialog_unavailable])"

text \<open>The effects of one run: what the run appended to the effects of the state it
  started in.\<close>

definition runEffects :: "app \<Rightarrow> outcome \<Rightarrow> effect list" where
  "runEffects s r = drop (length (effects s)) (effects (snd r))"

section \<open>Example states and environments\<close>

definition cat_png :: ImageData where
  "cat_png = \<lparr>base64 = ''iVBORw0KGgo='', mimeType = ''image/png''\<rparr>"

definition hat_jpg :: ImageData where
  "hat_jpg = \<lparr>base64 = ''/9j/4AAQ'', mimeType = ''image/jpeg''\<rparr>"

definition blank_area :: "nat \<Rightarrow> upload_area" where
  "blank_area i =
     \<lparr>area_index = i, placeholder_display = [], preview_src = [], preview_display = [],
      pointerEvents = [], dragover = False\<rparr>"

text \<open>A page with two upload areas, before the start-up loop.\<close>

definition page0 :: app where
  "page0 =
     \<lparr>activeTab = Generate, images = [],
      promptGenerateEl_value = [], promptCombineEl_value = [],
      promptGenerateEl_disabled = False, promptCombineEl_disabled = False,
      generateButton_disabled = False, generateButton_textContent = ''Generar'',
      addImageButton_disabled = False, statusEl = InnerText [],
      outputImage_src = [], outputImage_display = ''none'',
      downloadButton_display = ''none'',
      tabGenerate_className = class_tab_active, tabCombine_className = class_tab_inactive,
      panelGenerate_display = ''block'', panelCombine_display = ''none'',
      areas = [blank_area 7, blank_area 7], effects = []\<rparr>"

text \<open>The same page after the start-up loop.\<close>

definition ready_page :: app where
  "ready_page = page0\<lparr>images := [None, None], areas := [blank_area 0, blank_area 1]\<rparr>"

text \<open>Generate mode with the prompt of the specification's scenario, and an output image
  on show from an earlier request.\<close>

definition fox_page :: app where
  "fox_page =
     ready_page
       \<lparr>promptGenerateEl_value := ''a red fox'',
        outputImage_src := ''data:image/jpeg;base64,AAAA'',
        outputImage_display := ''block'', downloadButton_display := ''block''\<rparr>"

text \<open>Combine mode, two populated slots, the prompt \<^verbatim>\<open>merge these\<close>.\<close>

definition merge_page :: app where
  "merge_page =
     run [TabClick Combine, FileDecoded 0 cat_png, FileDecoded 1 hat_jpg,
          TypeCombine ''merge these''] ready_page"

text \<open>Combine mode, one populated slot, the same prompt.\<close>

definition one_slot_page :: app where
  "one_slot_page =
     run [TabClick Combine, FileDecoded 0 cat_png, TypeCombine ''merge these''] ready_page"

text \<open>Generate mode, a prompt of white space.\<close>

definition blank_page :: app where
  "blank_page = ready_page\<lparr>promptGenerateEl_value := ''  ''\<rparr>"

text \<open>A host with a configured credential and a dialog, whose remote calls answer with
  one image; and variations of it.\<close>

definition answer_parts :: "Part list" where
  "answer_parts =
     [\<lparr>inlineData = None, text_of = Some ''Here it is''\<rparr>,
      \<lparr>inlineData = Some \<lparr>blob_mimeType = ''image/png'', blob_data = ''REVG''\<rparr>,
       text_of = None\<rparr>,
      \<lparr>inlineData = Some \<lparr>blob_mimeType = ''image/webp'', blob_data = ''R0hJ''\<rparr>,
       text_of = None\<rparr>]"

definition host0 :: env where
  "host0 =
     \<lparr>API_KEY = Some ''k-123'', openSelectKey = Some None,
      generateImages = (\<lambda>req. Inr \<lparr>generatedImages = Some [\<lparr>imageBytes = ''QUJD''\<rparr>]\<rparr>),
      generateContent = (\<lambda>req. Inr \<lparr>candidates = [\<lparr>content_parts = answer_parts\<rparr>]\<rparr>),
      typeErrorMessage = ''Cannot read properties of undefined''\<rparr>"

definition host_no_key :: env where
  "host_no_key = host0\<lparr>API_KEY := None\<rparr>"

definition host_no_key_no_dialog :: env where
  "host_no_key_no_dialog = host0\<lparr>API_KEY := None, openSelectKey := None\<rparr>"

definition host_no_images :: env where
  "host_no_images = host0\<lparr>generateImages := (\<lambda>req. Inr \<lparr>generatedImages = Some []\<rparr>)\<rparr>"

definition host_text_only :: env where
  "host_text_only =
     host0\<lparr>generateContent :=
       (\<lambda>req. Inr \<lparr>candidates =
          [\<lparr>content_parts = [\<lparr>inlineData = None, text_of = Some ''Sorry''\<rparr>]\<rparr>]\<rparr>)\<rparr>"

text \<open>A host whose remote calls reject with the given message, and whose dialog rejects
  too.\<close>

definition host_rejecting :: "string \<Rightarrow> env" where
  "host_rejecting m =
     host0\<lparr>openSelectKey := Some (Some (JsError ''dialog closed'')),
           generateImages := (\<lambda>req. Inl (JsError m)),
           generateContent := (\<lambda>req. Inl (JsError m))\<rparr>"

text \<open>The same on a host without the key-selection dialog.\<close>

definition host_rejecting_no_dialog :: "string \<Rightarrow> env" where
  "host_rejecting_no_dialog m = (host_rejecting m)\<lparr>openSelectKey := None\<rparr>"

section \<open>Strings\<close>

lemma str_includes_sublist: "str_includes s pat \<longleftrightarrow> sublist pat s"
  by (induction s) (simp_all add: sublist_Cons_right)

lemma dropWhile_all_or_head:
  "list_all P (dropWhile P xs) \<longleftrightarrow> dropWhile P xs = []"
proof (cases "dropWhile P xs")
  case Nil
  show ?thesis unfolding Nil by simp
next
  case (Cons y ys)
  then have "\<not> P y" using hd_dropWhile [of P xs] by fastforce
  then show ?thesis unfolding Cons by simp
qed

text \<open>Trimming leaves nothing exactly when the prompt is blank.\<close>

lemma trim_empty_iff: "trim p = [] \<longleftrightarrow> blank p"
proof -
  have "trim p = [] \<longleftrightarrow> list_all isWhiteSpace (dropWhile isWhiteSpace p)"
    by (simp add: trim_def dropWhile_eq_Nil_conv list_all_iff)
  also have "\<dots> \<longleftrightarrow> dropWhile isWhiteSpace p = []"
    by (rule dropWhile_all_or_head)
  also have "\<dots> \<longleftrightarrow> blank p"
    by (simp add: dropWhile_eq_Nil_conv blank_def list_all_iff)
  finally show ?thesis .
qed

lemma length_validImagesOf: "length (validImagesOf s) = populatedSlots s"
  by (simp add: validImagesOf_def populatedSlots_def)

text \<open>
  The program's test on the lower-case form of the message is the specification's
  case-insensitive containment, for a pattern of small letters and spaces: lower-casing
  sends exactly a small letter and its capital to that small letter.
\<close>

lemma letterPairs_map:
  "letterPairs = map (\<lambda>n. (char_of n, char_of (n + 32))) [65..<91]"
  by code_simp

lemma char_of_eq: "n < 256 \<Longrightarrow> (c = char_of n) = ((of_char c :: nat) = n)"
  by (metis char_of_char of_char_of mod_less)

lemma in_letterPairs:
  "(c, p) \<in> set letterPairs \<longleftrightarrow>
     (65 \<le> (of_char c :: nat) \<and> (of_char c :: nat) \<le> 90 \<and> (of_char p :: nat) = of_char c + 32)"
proof
  assume "(c, p) \<in> set letterPairs"
  then have "(c, p) \<in> (\<lambda>n::nat. (char_of n, char_of (n + 32))) ` {65..<91}"
    unfolding letterPairs_map by (simp only: set_map set_upt)
  then obtain n :: nat where n: "65 \<le> n" "n < 91" "c = char_of n" "p = char_of (n + 32)"
    by auto
  then have "(of_char c :: nat) = n" "(of_char p :: nat) = n + 32"
    using char_of_eq [of n c] char_of_eq [of "n + 32" p] by simp_all
  with n show "65 \<le> (of_char c :: nat) \<and> (of_char c :: nat) \<le> 90
      \<and> (of_char p :: nat) = of_char c + 32"
    by simp
next
  assume a: "65 \<le> (of_char c :: nat) \<and> (of_char c :: nat) \<le> 90
      \<and> (of_char p :: nat) = of_char c + 32"
  let ?n = "of_char c :: nat"
  have "c = char_of ?n" by simp
  moreover have "p = char_of (?n + 32)"
    using a char_of_eq [of "?n + 32" p] by simp
  moreover have "?n \<in> {65..<91}" using a by simp
  ultimately show "(c, p) \<in> set letterPairs"
    unfolding letterPairs_map by (simp only: set_map set_upt) blast
qed

lemma of_char_space: "(of_char CHR '' '' :: nat) = 32"
  by simp

lemma lowerChar_small:
  assumes "smallOrSpace p"
  shows "lowerChar c = p \<longleftrightarrow> sameIgnoringCase c p"
proof -
  define a :: nat where "a = of_char c"
  define b :: nat where "b = of_char p"
  have eq: "(c = p) = (a = b)" by (simp add: a_def b_def)
  have p: "(97 \<le> b \<and> b \<le> 122) \<or> b = 32"
    using assms by (auto simp: smallOrSpace_def b_def)
  have up: "(char_of (a + 32) = p) = (b = a + 32)" if "a \<le> 222"
    using that char_of_eq [of "a + 32" p] by (auto simp: b_def)
  have same: "sameIgnoringCase c p = (a = b \<or> (65 \<le> a \<and> a \<le> 90 \<and> b = a + 32))"
    unfolding sameIgnoringCase_def in_letterPairs eq
    using p by (auto simp: a_def b_def)
  have low: "lowerChar c = (if (65 \<le> a \<and> a \<le> 90) \<or> (192 \<le> a \<and> a \<le> 222 \<and> a \<noteq> 215)
                            then char_of (a + 32) else c)"
    by (simp add: lowerChar_def Let_def a_def)
  show ?thesis
  proof (cases "(65 \<le> a \<and> a \<le> 90) \<or> (192 \<le> a \<and> a \<le> 222 \<and> a \<noteq> 215)")
    case True
    then have "a \<le> 222" by arith
    from up [OF this] True p show ?thesis
      unfolding same low by (simp only: if_True) arith
  next
    case False
    with p show ?thesis
      unfolding same low eq by (simp only: if_False eq) arith
  qed
qed

lemma permission_letters: "list_all smallOrSpace ''permission denied''"
  by code_simp

lemma starts_lower:
  "list_all smallOrSpace pat \<Longrightarrow>
   prefix pat (map lowerChar s) \<longleftrightarrow> startsIgnoringCase pat s"
  by (induction pat s rule: startsIgnoringCase.induct) (auto simp: lowerChar_small [symmetric])

lemma contains_lower:
  "list_all smallOrSpace pat \<Longrightarrow>
   sublist pat (toLowerCase s) \<longleftrightarrow> containsIgnoringCase s pat"
proof (induction s)
  case Nil
  show ?case by (simp add: toLowerCase_def)
next
  case (Cons c s)
  have "prefix pat (map lowerChar (c # s)) = startsIgnoringCase pat (c # s)"
    by (rule starts_lower [OF Cons.prems])
  with Cons show ?case
    by (simp add: toLowerCase_def sublist_Cons_right)
qed

lemma startsIgnoringCase_iff:
  "startsIgnoringCase pat s \<longleftrightarrow>
     (\<exists>mid post. s = mid @ post \<and> list_all2 sameIgnoringCase mid pat)"
proof (induction pat s rule: startsIgnoringCase.induct)
  case (1 s)
  show ?case by simp
next
  case (2 p ps)
  show ?case by (simp add: list_all2_Cons2)
next
  case (3 p ps c s)
  show ?case
    unfolding startsIgnoringCase.simps 3
    by (auto simp: list_all2_Cons2 Cons_eq_append_conv)
qed

lemma containsIgnoringCase_iff:
  "containsIgnoringCase s pat \<longleftrightarrow>
     (\<exists>pre mid post. s = pre @ mid @ post \<and> list_all2 sameIgnoringCase mid pat)"
proof (induction s)
  case Nil
  show ?case by auto
next
  case (Cons c s)
  show ?case
    unfolding containsIgnoringCase.simps Cons startsIgnoringCase_iff
  proof
    assume "(\<exists>mid post. c # s = mid @ post \<and> list_all2 sameIgnoringCase mid pat)
        \<or> (\<exists>pre mid post. s = pre @ mid @ post \<and> list_all2 sameIgnoringCase mid pat)"
    then show "\<exists>pre mid post. c # s = pre @ mid @ post \<and> list_all2 sameIgnoringCase mid pat"
    proof
      assume "\<exists>mid post. c # s = mid @ post \<and> list_all2 sameIgnoringCase mid pat"
      then obtain mid post where "c # s = [] @ mid @ post" "list_all2 sameIgnoringCase mid pat"
        by auto
      then show ?thesis by blast
    next
      assume "\<exists>pre mid post. s = pre @ mid @ post \<and> list_all2 sameIgnoringCase mid pat"
      then obtain pre mid post where "c # s = (c # pre) @ mid @ post"
        "list_all2 sameIgnoringCase mid pat"
        by auto
      then show ?thesis by blast
    qed
  next
    assume "\<exists>pre mid post. c # s = pre @ mid @ post \<and> list_all2 sameIgnoringCase mid pat"
    then obtain pre mid post where h: "c # s = pre @ mid @ post"
      "list_all2 sameIgnoringCase mid pat"
      by blast
    show "(\<exists>mid post. c # s = mid @ post \<and> list_all2 sameIgnoringCase mid pat)
        \<or> (\<exists>pre mid post. s = pre @ mid @ post \<and> list_all2 sameIgnoringCase mid pat)"
    proof (cases pre)
      case Nil
      with h show ?thesis by auto
    next
      case (Cons x pre')
      with h have "s = pre' @ mid @ post" by simp
      with h(2) show ?thesis by blast
    qed
  qed
qed

lemma toLowerCase_capitals:
  "toLowerCase (''Permission DENIED, 7 '' @ [CHR 0xC9, CHR 0xD7])
   = ''permission denied, 7 '' @ [CHR 0xE9, CHR 0xD7]"
  by code_simp

section \<open>The ways through the trigger\<close>

lemma trigger_absent:
  "credentialAbsent e \<Longrightarrow>
   performGeneration e s = openApiKeyDialog e (showStatusError msg_no_key s)"
  by (auto simp: credentialAbsent_def performGeneration_def truthy_def)

lemma trigger_generate_blank:
  "\<lbrakk>\<not> credentialAbsent e; activeTab s = Generate; blank (promptGenerateEl_value s)\<rbrakk> \<Longrightarrow>
   performGeneration e s = (None, showStatusError msg_need_prompt s)"
  by (auto simp: credentialAbsent_def performGeneration_def truthy_def trim_empty_iff
      split: option.splits)

lemma trigger_combine_few:
  "\<lbrakk>\<not> credentialAbsent e; activeTab s = Combine; populatedSlots s < 2\<rbrakk> \<Longrightarrow>
   performGeneration e s = (None, showStatusError msg_need_two s)"
  by (auto simp: credentialAbsent_def performGeneration_def truthy_def length_validImagesOf
      split: option.splits)

lemma trigger_combine_blank:
  "\<lbrakk>\<not> credentialAbsent e; activeTab s = Combine; 2 \<le> populatedSlots s;
    blank (promptCombineEl_value s)\<rbrakk> \<Longrightarrow>
   performGeneration e s = (None, showStatusError msg_need_combine_prompt s)"
  by (auto simp: credentialAbsent_def performGeneration_def truthy_def length_validImagesOf
      trim_empty_iff split: option.splits)

lemma trigger_started:
  "\<lbrakk>\<not> stopsBeforeRequest e s; API_KEY e = Some apiKey\<rbrakk> \<Longrightarrow>
   performGeneration e s =
     startRequest (trim (activePrompt s)) apiKey e
       (setStatusText (if activeTab s = Generate then msg_generating else msg_combining) s)"
  by (cases "activeTab s")
     (auto simp: stopsBeforeRequest_def credentialAbsent_def performGeneration_def truthy_def
        length_validImagesOf trim_empty_iff activePrompt_def Let_def)

lemma started_has_key: "\<not> stopsBeforeRequest e s \<Longrightarrow> \<exists>apiKey. API_KEY e = Some apiKey"
  by (cases "API_KEY e") (simp_all add: stopsBeforeRequest_def credentialAbsent_def)

lemma trigger_started_try:
  assumes "\<not> stopsBeforeRequest e s" and "API_KEY e = Some apiKey"
  shows "performGeneration e s =
     tryRequest (trim (activePrompt s)) apiKey e
       (setControlsDisabled True
          ((setStatusText (startMessage s) s)
             \<lparr>outputImage_display := ''none'', downloadButton_display := ''none''\<rparr>))"
  using trigger_started [OF assms] by (simp add: startRequest_def startMessage_def)

section \<open>What each step leaves behind\<close>

lemma openApiKeyDialog_eq:
  "openApiKeyDialog e s =
     (case openSelectKey e of Some r \<Rightarrow> r | None \<Rightarrow> None,
      s\<lparr>statusEl := (case openSelectKey e of Some r \<Rightarrow> statusEl s
                      | None \<Rightarrow> InnerHTML (errorSpan msg_dialog_unavailable)),
        effects := effects s @ dialogEffects e\<rparr>)"
  by (simp add: openApiKeyDialog_def dialogEffects_def showStatusError_def split: option.splits)

lemma catchBlock_eq:
  "catchBlock e err s =
     (let m = errorMessageOf err;
          s1 = s\<lparr>effects := effects s @ [ConsoleError msg_console err]\<rparr>
      in if sublist ''Requested entity was not found.'' m
         then openApiKeyDialog e (showStatusError msg_model_not_found s1)
         else if sublist ''API_KEY_INVALID'' m \<or> sublist ''API key not valid'' m
                 \<or> sublist ''permission denied'' (toLowerCase m)
         then openApiKeyDialog e (showStatusError msg_key_invalid s1)
         else (None, showStatusError (''Error: '' @ m) s1))"
  by (simp add: catchBlock_def Let_def str_includes_sublist)

lemma generateImage_rejects:
  "generateImages e (generateImagesParams p k) = Inl err \<Longrightarrow>
   generateImage p k e s =
     (Some err, s\<lparr>effects := effects s @ [GenerateImagesCall (generateImagesParams p k)]\<rparr>)"
  by (simp add: generateImage_def Let_def)

lemma combineImages_rejects:
  "generateContent e (generateContentParams p l k) = Inl err \<Longrightarrow>
   combineImages p l k e s =
     (Some err, s\<lparr>effects := effects s @ [GenerateContentCall (generateContentParams p l k)]\<rparr>)"
  by (simp add: combineImages_def Let_def)

lemma generateImage_empty:
  "\<lbrakk>generateImages e (generateImagesParams p k) = Inr response;
    generatedImages response = None \<or> generatedImages response = Some []\<rbrakk> \<Longrightarrow>
   generateImage p k e s =
     (Some (JsError msg_no_images),
      s\<lparr>effects := effects s @ [GenerateImagesCall (generateImagesParams p k)]\<rparr>)"
  by (auto simp: generateImage_def Let_def)

lemma generateImage_first:
  "\<lbrakk>generateImages e (generateImagesParams p k) = Inr response;
    generatedImages response = Some (img # rest)\<rbrakk> \<Longrightarrow>
   generateImage p k e s =
     (None,
      s\<lparr>effects := effects s @ [GenerateImagesCall (generateImagesParams p k)],
        outputImage_src := ''data:image/jpeg;base64,'' @ imageBytes img,
        outputImage_display := ''block'', downloadButton_display := ''block''\<rparr>)"
  by (simp add: generateImage_def Let_def)

text \<open>The loop over the parts: the first part with inline data is rendered, whatever
  comes before or after it; with no such part nothing changes.\<close>

lemma scanParts_first:
  "\<lbrakk>k < length ps; inlineData (ps ! k) = Some b; \<forall>j<k. inlineData (ps ! j) = None\<rbrakk> \<Longrightarrow>
   scanParts ps s =
     (True, s\<lparr>outputImage_src := ''data:'' @ blob_mimeType b @ '';base64,'' @ blob_data b,
              outputImage_display := ''block'', downloadButton_display := ''block''\<rparr>)"
proof (induction ps arbitrary: k)
  case Nil
  then show ?case by simp
next
  case (Cons p ps)
  show ?case
  proof (cases k)
    case 0
    with Cons.prems show ?thesis by simp
  next
    case (Suc k')
    with Cons.prems have "inlineData p = None" by auto
    moreover have "scanParts ps s =
     (True, s\<lparr>outputImage_src := ''data:'' @ blob_mimeType b @ '';base64,'' @ blob_data b,
              outputImage_display := ''block'', downloadButton_display := ''block''\<rparr>)"
      using Cons.prems Suc by (intro Cons.IH [of k']) auto
    ultimately show ?thesis by simp
  qed
qed

lemma scanParts_none:
  "\<forall>p\<in>set ps. inlineData p = None \<Longrightarrow> scanParts ps s = (False, s)"
  by (induction ps) simp_all

lemma effects_setControlsDisabled [simp]: "effects (setControlsDisabled b s) = effects s"
  by (simp add: setControlsDisabled_def)

lemma statusEl_setControlsDisabled [simp]: "statusEl (setControlsDisabled b s) = statusEl s"
  by (simp add: setControlsDisabled_def)

lemma activeTab_setControlsDisabled [simp]: "activeTab (setControlsDisabled b s) = activeTab s"
  by (simp add: setControlsDisabled_def)

lemma networkCalls_showStatusError [simp]:
  "networkCalls (showStatusError m s) = networkCalls s"
  by (simp add: networkCalls_def showStatusError_def)

lemma networkCalls_openApiKeyDialog [simp]:
  "networkCalls (snd (openApiKeyDialog e s)) = networkCalls s"
  by (simp add: networkCalls_def openApiKeyDialog_eq dialogEffects_def split: option.splits)

text \<open>A started request whose remote call rejects: the state in which the rejection is
  caught, and the \<^verbatim>\<open>finally\<close> block after the \<^verbatim>\<open>catch\<close> block.\<close>

lemma rejected_run:
  assumes started: "\<not> stopsBeforeRequest e s" and rej: "remoteRejects e s err"
  shows "performGeneration e s =
     (fst (catchBlock e err
        ((setControlsDisabled True
           (s\<lparr>statusEl := InnerText (startMessage s),
              outputImage_display := ''none'', downloadButton_display := ''none''\<rparr>))
         \<lparr>effects := effects s @ [SetStatusText (startMessage s), requestOf e s]\<rparr>)),
      setControlsDisabled False (snd (catchBlock e err
        ((setControlsDisabled True
           (s\<lparr>statusEl := InnerText (startMessage s),
              outputImage_display := ''none'', downloadButton_display := ''none''\<rparr>))
         \<lparr>effects := effects s @ [SetStatusText (startMessage s), requestOf e s]\<rparr>))))"
proof -
  obtain apiKey where key: "API_KEY e = Some apiKey"
    using started_has_key [OF started] by blast
  let ?p = "trim (activePrompt s)"
  let ?s0 = "setControlsDisabled True
       ((setStatusText (startMessage s) s)
          \<lparr>outputImage_display := ''none'', downloadButton_display := ''none''\<rparr>)"
  have run: "performGeneration e s = tryRequest ?p apiKey e ?s0"
    by (rule trigger_started_try [OF started key])
  have tab: "activeTab ?s0 = activeTab s" and imgs: "validImagesOf ?s0 = validImagesOf s"
    by (simp_all add: setStatusText_def validImagesOf_def setControlsDisabled_def)
  have body: "(if activeTab ?s0 = Generate then generateImage ?p apiKey e ?s0
               else combineImages ?p (validImagesOf ?s0) apiKey e ?s0)
              = (Some err, ?s0\<lparr>effects := effects ?s0 @ [requestOf e s]\<rparr>)"
  proof (cases "activeTab s = Generate")
    case True
    with rej key have "generateImages e (generateImagesParams ?p apiKey) = Inl err"
      by (simp add: remoteRejects_def)
    then show ?thesis
      using True key by (simp only: tab if_True generateImage_rejects) (simp add: requestOf_def)
  next
    case False
    with rej key
    have "generateContent e (generateContentParams ?p (validImagesOf s) apiKey) = Inl err"
      by (simp add: remoteRejects_def)
    then show ?thesis
      using False key
      by (simp only: tab imgs if_False combineImages_rejects) (simp add: requestOf_def)
  qed
  have st: "?s0\<lparr>effects := effects ?s0 @ [requestOf e s]\<rparr> =
        (setControlsDisabled True
           (s\<lparr>statusEl := InnerText (startMessage s),
              outputImage_display := ''none'', downloadButton_display := ''none''\<rparr>))
         \<lparr>effects := effects s @ [SetStatusText (startMessage s), requestOf e s]\<rparr>"
    by (simp add: setControlsDisabled_def setStatusText_def)
  show ?thesis
    unfolding run tryRequest_def body st by (simp add: split_beta)
qed

lemma effects_scanParts [simp]: "effects (snd (scanParts ps s)) = effects s"
  by (induction ps) (simp_all split: option.splits)

lemma effects_generateImage:
  "effects (snd (generateImage p k e s)) = effects s @ [GenerateImagesCall (generateImagesParams p k)]"
  by (simp add: generateImage_def Let_def split: sum.splits option.splits list.splits)

lemma effects_combineImages:
  "effects (snd (combineImages p l k e s))
   = effects s @ [GenerateContentCall (generateContentParams p l k)]"
  by (simp add: combineImages_def Let_def split_beta split: sum.splits list.splits)

lemma effects_catchBlock: "\<exists>rest. effects (snd (catchBlock e err s)) = effects s @ rest"
  by (simp add: catchBlock_eq openApiKeyDialog_eq Let_def showStatusError_def)

lemma effects_tryRequest:
  "\<exists>rest. effects (snd (tryRequest p k e s)) =
      effects s @ (if activeTab s = Generate then GenerateImagesCall (generateImagesParams p k)
                   else GenerateContentCall (generateContentParams p (validImagesOf s) k)) # rest"
proof -
  define body where "body = (if activeTab s = Generate then generateImage p k e s
             else combineImages p (validImagesOf s) k e s)"
  define call where "call = (if activeTab s = Generate
      then GenerateImagesCall (generateImagesParams p k)
      else GenerateContentCall (generateContentParams p (validImagesOf s) k))"
  have b: "effects (snd body) = effects s @ [call]"
    by (simp add: body_def call_def effects_generateImage effects_combineImages)
  have t: "snd (tryRequest p k e s) =
      setControlsDisabled False
        (snd (case fst body of None \<Rightarrow> (None, setStatusText msg_success (snd body))
              | Some err \<Rightarrow> catchBlock e err (snd body)))"
    unfolding tryRequest_def body_def [symmetric] by (simp add: split_beta)
  show ?thesis
  proof (cases "fst body")
    case None
    then show ?thesis
      unfolding t call_def [symmetric] by (simp add: setStatusText_def b)
  next
    case (Some err)
    obtain rest where "effects (snd (catchBlock e err (snd body))) = effects (snd body) @ rest"
      using effects_catchBlock by blast
    with Some show ?thesis
      unfolding t call_def [symmetric] by (simp add: b)
  qed
qed

text \<open>A trigger that does not stop before the request sends the request of the active mode.\<close>

lemma started_sends_request:
  assumes "\<not> stopsBeforeRequest e s"
  shows "\<exists>rest. runEffects s (performGeneration e s)
                = SetStatusText (startMessage s) # requestOf e s # rest"
proof -
  obtain k where key: "API_KEY e = Some k" using started_has_key [OF assms] by blast
  let ?s0 = "setControlsDisabled True
          ((setStatusText (startMessage s) s)
             \<lparr>outputImage_display := ''none'', downloadButton_display := ''none''\<rparr>)"
  have v: "validImagesOf ?s0 = validImagesOf s" "activeTab ?s0 = activeTab s"
    "effects ?s0 = effects s @ [SetStatusText (startMessage s)]"
    by (simp_all add: validImagesOf_def setControlsDisabled_def setStatusText_def)
  obtain rest where "effects (snd (tryRequest (trim (activePrompt s)) k e ?s0)) =
      effects ?s0 @ requestOf e s # rest"
    using effects_tryRequest [of "trim (activePrompt s)" k e ?s0] key
    unfolding v by (auto simp: requestOf_def)
  then show ?thesis
    unfolding trigger_started_try [OF assms key] runEffects_def v by simp
qed

section \<open>Controls\<close>

lemma controlsEnabled_after: "controlsEnabled (setControlsDisabled False s)"
  by (simp add: controlsEnabled_def setControlsDisabled_def o_def map_replicate_const)

lemma controlsDisabled_after: "controlsDisabled (setControlsDisabled True s)"
  by (simp add: controlsDisabled_def setControlsDisabled_def o_def map_replicate_const)

lemma controlsEnabled_tryRequest: "controlsEnabled (snd (tryRequest prompt apiKey e s))"
  by (simp add: tryRequest_def split_beta controlsEnabled_after)

lemma length_areas_setControlsDisabled [simp]:
  "length (areas (setControlsDisabled b s)) = length (areas s)"
  by (simp add: setControlsDisabled_def)

lemma length_areas_catchBlock [simp]:
  "length (areas (snd (catchBlock e err s))) = length (areas s)"
  by (simp add: catchBlock_eq openApiKeyDialog_eq Let_def showStatusError_def)

lemma length_areas_scanParts [simp]: "length (areas (snd (scanParts ps s))) = length (areas s)"
  by (induction ps) (simp_all split: option.splits)

lemma length_areas_generateImage [simp]:
  "length (areas (snd (generateImage p k e s))) = length (areas s)"
  by (simp add: generateImage_def Let_def split: sum.splits option.splits list.splits)

lemma length_areas_combineImages [simp]:
  "length (areas (snd (combineImages p l k e s))) = length (areas s)"
  by (simp add: combineImages_def Let_def split_beta split: sum.splits list.splits)

lemma length_areas_tryRequest [simp]:
  "length (areas (snd (tryRequest p k e s))) = length (areas s)"
  by (simp add: tryRequest_def split_beta setStatusText_def split: option.splits)

section \<open>The slot sequence under the handlers\<close>

lemma length_assignIndex: "length xs \<le> length (assignIndex xs i v)"
  by (simp add: assignIndex_def)

lemma images_openApiKeyDialog [simp]: "images (snd (openApiKeyDialog e s)) = images s"
  by (simp add: openApiKeyDialog_eq)

lemma images_scanParts [simp]: "images (snd (scanParts ps s)) = images s"
  by (induction ps) (simp_all split: option.splits)

lemma images_generateImage [simp]: "images (snd (generateImage p k e s)) = images s"
  by (simp add: generateImage_def Let_def split: sum.splits option.splits list.splits)

lemma images_combineImages [simp]: "images (snd (combineImages p l k e s)) = images s"
  by (simp add: combineImages_def Let_def split_beta split: sum.splits list.splits)

lemma images_catchBlock [simp]: "images (snd (catchBlock e err s)) = images s"
  by (simp add: catchBlock_eq Let_def showStatusError_def)

lemma images_tryRequest [simp]: "images (snd (tryRequest p k e s)) = images s"
  by (simp add: tryRequest_def Let_def split_beta setStatusText_def setControlsDisabled_def
      split: option.splits)

lemma images_performGeneration [simp]: "images (snd (performGeneration e s)) = images s"
  by (simp add: performGeneration_def startRequest_def Let_def showStatusError_def
      setStatusText_def setControlsDisabled_def split: option.splits)

lemma areas_openApiKeyDialog [simp]: "areas (snd (openApiKeyDialog e s)) = areas s"
  by (simp add: openApiKeyDialog_eq)

lemma areas_scanParts [simp]: "areas (snd (scanParts ps s)) = areas s"
  by (induction ps) (simp_all split: option.splits)

lemma areas_generateImage [simp]: "areas (snd (generateImage p k e s)) = areas s"
  by (simp add: generateImage_def Let_def split: sum.splits option.splits list.splits)

lemma areas_combineImages [simp]: "areas (snd (combineImages p l k e s)) = areas s"
  by (simp add: combineImages_def Let_def split_beta split: sum.splits list.splits)

lemma areas_catchBlock [simp]: "areas (snd (catchBlock e err s)) = areas s"
  by (simp add: catchBlock_eq Let_def showStatusError_def)

lemma index_performGeneration:
  "map area_index (areas (snd (performGeneration e s))) = map area_index (areas s)"
  by (simp add: performGeneration_def startRequest_def tryRequest_def setControlsDisabled_def
      showStatusError_def setStatusText_def Let_def split_beta o_def split: option.splits)

lemma handle_length: "length (images s) \<le> length (images (handle ev s))"
  by (cases ev)
     (simp_all add: switchTab_def addImage_def fileDecoded_def setDragover_def
        onImageLoaded_def Let_def length_assignIndex)

lemma run_length: "length (images s) \<le> length (images (run evs s))"
proof (induction evs arbitrary: s)
  case Nil
  show ?case by simp
next
  case (Cons ev evs)
  have "length (images s) \<le> length (images (handle ev s))" by (rule handle_length)
  also have "\<dots> \<le> length (images (run evs (handle ev s)))" by (rule Cons.IH)
  finally show ?case by simp
qed

lemma indexes_ok_alt:
  "indexes_ok s = (\<forall>i \<in> set (map area_index (areas s)). i < length (images s))"
  by (simp add: indexes_ok_def list_all_iff)

text \<open>Every handler keeps the closed-over indexes inside the slot sequence.\<close>

lemma handle_indexes_ok: "indexes_ok s \<Longrightarrow> indexes_ok (handle ev s)"
proof (cases ev)
  case (PrimaryClick e)
  then show "indexes_ok s \<Longrightarrow> indexes_ok (handle ev s)"
    unfolding indexes_ok_alt
    by (simp only: handle.simps index_performGeneration images_performGeneration)
next
  case (FileDecoded k d)
  assume ok: "indexes_ok s"
  show "indexes_ok (handle ev s)"
  proof (cases "k < length (areas s)")
    case False
    with ok FileDecoded show ?thesis by (simp add: fileDecoded_def)
  next
    case True
    with ok have "area_index (areas s ! k) < length (images s)"
      by (simp add: indexes_ok_def list_all_length)
    with ok True FileDecoded show ?thesis
      by (auto simp: indexes_ok_def fileDecoded_def onImageLoaded_def assignIndex_def Let_def
          list_all_length nth_list_update)
  qed
qed (auto simp: indexes_ok_def switchTab_def addImage_def setDragover_def list_all_length
      nth_list_update nth_append)

lemma run_indexes_ok: "indexes_ok s \<Longrightarrow> indexes_ok (run evs s)"
  by (induction evs arbitrary: s) (simp_all add: handle_indexes_ok)

text \<open>The start-up loop, after \<open>m\<close> of the areas.\<close>

lemma setup_loop:
  "m \<le> length (areas s) \<Longrightarrow>
   (let s' = foldl (\<lambda>s index. s\<lparr>images := images s @ [None],
                 areas := (areas s)[index := (areas s ! index)\<lparr>area_index := index\<rparr>]\<rparr>)
              (s\<lparr>images := []\<rparr>) [0..<m]
    in images s' = replicate m None \<and> length (areas s') = length (areas s)
       \<and> (\<forall>k<m. area_index (areas s' ! k) = k))"
proof (induction m)
  case 0
  show ?case by simp
next
  case (Suc m)
  then show ?case
    by (auto simp: Let_def nth_list_update replicate_append_same less_Suc_eq)
qed

lemma images_setupExisting: "images (setupExisting s) = replicate (length (areas s)) None"
  using setup_loop [of "length (areas s)" s] by (simp add: setupExisting_def Let_def)

lemma indexes_ok_setupExisting: "indexes_ok (setupExisting s)"
  using setup_loop [of "length (areas s)" s]
  by (simp add: setupExisting_def Let_def indexes_ok_def list_all_length)

lemma handle_shape:
  assumes "indexes_ok s"
  shows "images (handle ev s) = images s \<or> images (handle ev s) = images s @ [None]
       \<or> (\<exists>i d. i < length (images s) \<and> images (handle ev s) = (images s)[i := Some d])"
proof (cases ev)
  case (FileDecoded k d)
  show ?thesis
  proof (cases "k < length (areas s)")
    case False
    with FileDecoded show ?thesis by (simp add: fileDecoded_def)
  next
    case True
    with assms have "area_index (areas s ! k) < length (images s)"
      by (simp add: indexes_ok_def list_all_length)
    with True FileDecoded show ?thesis
      by (auto simp: fileDecoded_def onImageLoaded_def assignIndex_def Let_def)
  qed
qed (simp_all add: switchTab_def addImage_def setDragover_def)

section \<open>The examples evaluated\<close>

lemmas page_defs = fox_page_def merge_page_def one_slot_page_def blank_page_def ready_page_def
  page0_def blank_area_def cat_png_def hat_jpg_def

lemmas host_defs = host0_def host_no_key_def host_no_key_no_dialog_def host_no_images_def
  host_text_only_def host_rejecting_def host_rejecting_no_dialog_def

lemmas handler_defs = switchTab_def addImage_def fileDecoded_def onImageLoaded_def
  assignIndex_def setDragover_def

lemma setupExisting_page0: "setupExisting page0 = ready_page"
  by (simp add: setupExisting_def ready_page_def page0_def blank_area_def upt_rec)

lemma trim_fox: "trim ''a red fox'' = ''a red fox''"
  by code_simp

lemma no_key_is_not_need_two: "msg_no_key \<noteq> msg_need_two"
  by (simp add: msg_no_key_def msg_need_two_def)

lemma no_key_is_not_need_prompt: "msg_no_key \<noteq> msg_need_prompt"
  by (simp add: msg_no_key_def msg_need_prompt_def)

lemma no_images_unclassified:
  "\<not> sublist ''Requested entity was not found.'' msg_no_images
   \<and> \<not> sublist ''API_KEY_INVALID'' msg_no_images
   \<and> \<not> sublist ''API key not valid'' msg_no_images
   \<and> \<not> sublist ''permission denied'' (toLowerCase msg_no_images)"
  by code_simp

lemma key_not_valid_classified:
  "\<not> sublist ''Requested entity was not found.''
       ''API key not valid. Please pass a valid API key.''
   \<and> sublist ''API key not valid'' ''API key not valid. Please pass a valid API key.''"
  by code_simp

lemma permission_capitals_classified:
  "\<not> sublist ''Requested entity was not found.''
       ''403 Forbidden: PERMISSION Denied on resource''
   \<and> \<not> sublist ''API_KEY_INVALID'' ''403 Forbidden: PERMISSION Denied on resource''
   \<and> \<not> sublist ''API key not valid'' ''403 Forbidden: PERMISSION Denied on resource''
   \<and> \<not> sublist ''permission denied'' ''403 Forbidden: PERMISSION Denied on resource''
   \<and> containsIgnoringCase ''403 Forbidden: PERMISSION Denied on resource''
         ''permission denied''"
  by code_simp

lemma fallback_is_not_key_invalid: "msg_dialog_unavailable \<noteq> msg_key_invalid"
  by (simp add: msg_dialog_unavailable_def msg_key_invalid_def)

section \<open>Claims\<close>

subsection \<open>C1: classification of a rejected remote call\<close>

text \<open>
  C1, as the code has it. A request has started and its remote call rejects with \<open>err\<close>;
  \<open>m\<close> is the message the \<^verbatim>\<open>catch\<close> block reads from it. If \<open>m\<close> contains
  \<^verbatim>\<open>Requested entity was not found.\<close>, the tailored message is the model-not-found
  message; otherwise, if \<open>m\<close> contains \<^verbatim>\<open>API_KEY_INVALID\<close> or \<^verbatim>\<open>API key not valid\<close>, or
  contains \<^verbatim>\<open>permission denied\<close> ignoring case, it is the invalid-credential message. In
  both cases the tailored message is shown and \<^verbatim>\<open>openApiKeyDialog\<close> is called: on a host
  that exposes the key-selection dialog the dialog is invoked and the tailored message
  stays in the status; on a host without it no dialog is invoked and the fallback
  message replaces the tailored one. For every other message the status is
  \<^verbatim>\<open>Error: \<close> followed by \<open>m\<close>, and the dialog is not invoked. The effects of the run
  are given in full: the progress status, the request, the console error, the messages
  shown and the call of the dialog.
\<close>

theorem remote_failure_classified:
  assumes "\<not> stopsBeforeRequest e s" and "remoteRejects e s err"
  shows
    "(let m = errorMessageOf err;
          r = performGeneration e s;
          pre = [SetStatusText (startMessage s), requestOf e s, ConsoleError msg_console err];
          notFound = sublist ''Requested entity was not found.'' m;
          invalid = (sublist ''API_KEY_INVALID'' m \<or> sublist ''API key not valid'' m
                     \<or> containsIgnoringCase m ''permission denied'');
          tailored = (if notFound then msg_model_not_found else msg_key_invalid)
      in (notFound \<or> invalid \<longrightarrow>
            (case openSelectKey e of
               Some x \<Rightarrow>
                 runEffects s r = pre @ [ShowStatusError tailored, OpenSelectKey]
                 \<and> statusEl (snd r) = InnerHTML (errorSpan tailored)
                 \<and> fst r = x
             | None \<Rightarrow>
                 runEffects s r
                   = pre @ [ShowStatusError tailored, ShowStatusError msg_dialog_unavailable]
                 \<and> statusEl (snd r) = InnerHTML (errorSpan msg_dialog_unavailable)
                 \<and> fst r = None))
       \<and> (\<not> notFound \<and> \<not> invalid \<longrightarrow>
            runEffects s r = pre @ [ShowStatusError (''Error: '' @ m)]
            \<and> statusEl (snd r) = InnerHTML (errorSpan (''Error: '' @ m))
            \<and> fst r = None))"
  unfolding rejected_run [OF assms] Let_def catchBlock_eq openApiKeyDialog_eq runEffects_def
    contains_lower [OF permission_letters]
  by (simp add: showStatusError_def dialogEffects_def split: option.splits)

text \<open>An invalid-key message, and a permission message written with capitals, which the
  pattern matches only ignoring case.\<close>

theorem remote_failure_classified_witness:
  "\<not> stopsBeforeRequest (host_rejecting ''API key not valid. Please pass a valid API key.'')
       fox_page
   \<and> remoteRejects (host_rejecting ''API key not valid. Please pass a valid API key.'') fox_page
        (JsError ''API key not valid. Please pass a valid API key.'')
   \<and> runEffects fox_page
        (performGeneration (host_rejecting ''API key not valid. Please pass a valid API key.'')
           fox_page)
      = [SetStatusText msg_generating,
         GenerateImagesCall \<lparr>gi_apiKey = ''k-123'', gi_model = ''imagen-4.0-generate-001'',
                             gi_prompt = ''a red fox''\<rparr>,
         ConsoleError msg_console (JsError ''API key not valid. Please pass a valid API key.''),
         ShowStatusError msg_key_invalid, OpenSelectKey]
   \<and> statusEl (snd (performGeneration
                       (host_rejecting ''API key not valid. Please pass a valid API key.'')
                       fox_page))
      = InnerHTML (errorSpan msg_key_invalid)
   \<and> \<not> stopsBeforeRequest (host_rejecting ''403 Forbidden: PERMISSION Denied on resource'')
         fox_page
   \<and> remoteRejects (host_rejecting ''403 Forbidden: PERMISSION Denied on resource'') fox_page
        (JsError ''403 Forbidden: PERMISSION Denied on resource'')
   \<and> \<not> sublist ''permission denied'' ''403 Forbidden: PERMISSION Denied on resource''
   \<and> containsIgnoringCase ''403 Forbidden: PERMISSION Denied on resource'' ''permission denied''
   \<and> runEffects fox_page
        (performGeneration (host_rejecting ''403 Forbidden: PERMISSION Denied on resource'')
           fox_page)
      = [SetStatusText msg_generating,
         GenerateImagesCall \<lparr>gi_apiKey = ''k-123'', gi_model = ''imagen-4.0-generate-001'',
                             gi_prompt = ''a red fox''\<rparr>,
         ConsoleError msg_console (JsError ''403 Forbidden: PERMISSION Denied on resource''),
         ShowStatusError msg_key_invalid, OpenSelectKey]"
proof -
  let ?m = "''API key not valid. Please pass a valid API key.''"
  let ?n = "''403 Forbidden: PERMISSION Denied on resource''"
  have st: "\<not> stopsBeforeRequest (host_rejecting m) fox_page" for m
    by (simp add: stopsBeforeRequest_def credentialAbsent_def activePrompt_def blank_def
        isWhiteSpace_def page_defs host_defs)
  have rej: "remoteRejects (host_rejecting m) fox_page (JsError m)" for m
    by (simp add: remoteRejects_def page_defs host_defs)
  have req: "requestOf (host_rejecting m) fox_page =
      GenerateImagesCall \<lparr>gi_apiKey = ''k-123'', gi_model = ''imagen-4.0-generate-001'',
                             gi_prompt = ''a red fox''\<rparr>" for m
    by (simp add: requestOf_def activePrompt_def generateImagesParams_def trim_fox page_defs
        host_defs)
  have tab: "startMessage fox_page = msg_generating"
    by (simp add: startMessage_def page_defs)
  have dlg: "openSelectKey (host_rejecting m) = Some (Some (JsError ''dialog closed''))" for m
    by (simp add: host_defs)
  show ?thesis
    using st [of ?m] rej [of ?m] key_not_valid_classified
      remote_failure_classified [OF st [of ?m] rej [of ?m]]
      st [of ?n] rej [of ?n] permission_capitals_classified
      remote_failure_classified [OF st [of ?n] rej [of ?n]]
    by (simp add: Let_def req tab dlg)
qed

text \<open>The claim as stated fails on a host without the key-selection dialog: the message
  is classified as an invalid credential, yet no dialog is invoked and the status ends as
  the fallback message.\<close>

theorem remote_failure_classified_counterexample:
  "\<not> stopsBeforeRequest
       (host_rejecting_no_dialog ''API key not valid. Please pass a valid API key.'') fox_page
   \<and> remoteRejects
       (host_rejecting_no_dialog ''API key not valid. Please pass a valid API key.'') fox_page
       (JsError ''API key not valid. Please pass a valid API key.'')
   \<and> sublist ''API key not valid'' ''API key not valid. Please pass a valid API key.''
   \<and> runEffects fox_page
        (performGeneration
           (host_rejecting_no_dialog ''API key not valid. Please pass a valid API key.'')
           fox_page)
      = [SetStatusText msg_generating,
         GenerateImagesCall \<lparr>gi_apiKey = ''k-123'', gi_model = ''imagen-4.0-generate-001'',
                             gi_prompt = ''a red fox''\<rparr>,
         ConsoleError msg_console (JsError ''API key not valid. Please pass a valid API key.''),
         ShowStatusError msg_key_invalid, ShowStatusError msg_dialog_unavailable]
   \<and> statusEl (snd (performGeneration
                       (host_rejecting_no_dialog
                          ''API key not valid. Please pass a valid API key.'')
                       fox_page))
      = InnerHTML (errorSpan msg_dialog_unavailable)
   \<and> msg_dialog_unavailable \<noteq> msg_key_invalid"
proof -
  let ?m = "''API key not valid. Please pass a valid API key.''"
  let ?h = "host_rejecting_no_dialog ?m"
  have st: "\<not> stopsBeforeRequest ?h fox_page"
    by (simp add: stopsBeforeRequest_def credentialAbsent_def activePrompt_def blank_def
        isWhiteSpace_def page_defs host_defs)
  have rej: "remoteRejects ?h fox_page (JsError ?m)"
    by (simp add: remoteRejects_def page_defs host_defs)
  have req: "requestOf ?h fox_page =
      GenerateImagesCall \<lparr>gi_apiKey = ''k-123'', gi_model = ''imagen-4.0-generate-001'',
                             gi_prompt = ''a red fox''\<rparr>"
    by (simp add: requestOf_def activePrompt_def generateImagesParams_def trim_fox page_defs
        host_defs)
  have tab: "startMessage fox_page = msg_generating"
    by (simp add: startMessage_def page_defs)
  have dlg: "openSelectKey ?h = None"
    by (simp add: host_rejecting_no_dialog_def)
  have "performGeneration ?h fox_page =
      (None, setControlsDisabled False
         (showStatusError msg_dialog_unavailable
            (showStatusError msg_key_invalid
               ((setControlsDisabled True
                   (fox_page\<lparr>statusEl := InnerText msg_generating,
                       outputImage_display := ''none'', downloadButton_display := ''none''\<rparr>))
                \<lparr>effects := effects fox_page
                    @ [SetStatusText msg_generating,
                       GenerateImagesCall \<lparr>gi_apiKey = ''k-123'',
                                           gi_model = ''imagen-4.0-generate-001'',
                                           gi_prompt = ''a red fox''\<rparr>,
                       ConsoleError msg_console (JsError ?m)]\<rparr>))))"
    unfolding rejected_run [OF st rej] catchBlock_eq Let_def req tab
    using key_not_valid_classified
    by (simp add: openApiKeyDialog_def dlg)
  then show ?thesis
    using st rej key_not_valid_classified fallback_is_not_key_invalid
    by (simp add: runEffects_def showStatusError_def)
qed

subsection \<open>C2: combine mode needs two populated slots\<close>

text \<open>
  C2, as the code has it. In combine mode with fewer than two populated slots the trigger
  issues no network call, whatever the credential; and when a credential is configured
  the run is exactly the slot validation message, whatever the prompt is, so the slot
  check comes before the prompt check. Without a credential the trigger stops earlier,
  at the configuration-missing message.
\<close>

theorem combine_needs_two_slots:
  assumes "activeTab s = Combine" and "populatedSlots s < 2"
  shows "networkCalls (snd (performGeneration e s)) = networkCalls s
    \<and> (\<not> credentialAbsent e \<longrightarrow>
         performGeneration e s = (None, showStatusError msg_need_two s))"
proof (cases "credentialAbsent e")
  case True
  then show ?thesis by (simp add: trigger_absent)
next
  case False
  then show ?thesis using assms by (simp add: trigger_combine_few)
qed

theorem combine_needs_two_slots_witness:
  "activeTab one_slot_page = Combine \<and> populatedSlots one_slot_page < 2
   \<and> \<not> blank (activePrompt one_slot_page)
   \<and> performGeneration host0 one_slot_page = (None, showStatusError msg_need_two one_slot_page)
   \<and> networkCalls (snd (performGeneration host0 one_slot_page)) = []"
proof -
  have a: "activeTab one_slot_page = Combine" and b: "populatedSlots one_slot_page < 2"
    and c: "\<not> blank (activePrompt one_slot_page)" and d: "networkCalls one_slot_page = []"
    by (simp_all add: populatedSlots_def activePrompt_def blank_def isWhiteSpace_def
        networkCalls_def page_defs handler_defs)
  have k: "\<not> credentialAbsent host0"
    by (simp add: credentialAbsent_def host_defs)
  show ?thesis
    using a b c d k combine_needs_two_slots [OF a b, of host0] by simp
qed

text \<open>The claim as stated fails where no credential is configured: combine mode, one
  populated slot, and the only status shown is the configuration-missing message.\<close>

theorem combine_needs_two_slots_counterexample:
  "activeTab one_slot_page = Combine \<and> populatedSlots one_slot_page < 2
   \<and> runEffects one_slot_page (performGeneration host_no_key one_slot_page)
       = [ShowStatusError msg_no_key, OpenSelectKey]
   \<and> statusEl (snd (performGeneration host_no_key one_slot_page))
       = InnerHTML (errorSpan msg_no_key)
   \<and> msg_no_key \<noteq> msg_need_two"
proof -
  have a: "activeTab one_slot_page = Combine" and b: "populatedSlots one_slot_page < 2"
    by (simp_all add: populatedSlots_def page_defs handler_defs)
  have k: "credentialAbsent host_no_key"
    by (simp add: credentialAbsent_def host_defs)
  have "performGeneration host_no_key one_slot_page
        = openApiKeyDialog host_no_key (showStatusError msg_no_key one_slot_page)"
    by (rule trigger_absent [OF k])
  then show ?thesis
    using a b no_key_is_not_need_two
    by (simp add: openApiKeyDialog_eq runEffects_def showStatusError_def dialogEffects_def
        host_defs)
qed

subsection \<open>C3: the first inline image part of a combine response\<close>

text \<open>
  C3. The remote call answers and the response has a first candidate. If the part at
  position \<open>k\<close> of that candidate carries inline data and no part before it does, the
  combine operation renders that part, with its MIME type and its bytes, and shows the
  output image and the download control, whatever parts come before or after. If no part
  carries inline data, the operation throws the no-combined-image error and renders
  nothing.
\<close>

theorem combine_first_inline_part:
  assumes "generateContent e (generateContentParams prompt imageList apiKey) = Inr response"
    and "candidates response = c # cs"
  shows
    "(k < length (content_parts c) \<and> inlineData (content_parts c ! k) = Some b
        \<and> (\<forall>j<k. inlineData (content_parts c ! j) = None) \<longrightarrow>
      combineImages prompt imageList apiKey e s =
        (None,
         s\<lparr>effects := effects s
                @ [GenerateContentCall (generateContentParams prompt imageList apiKey)],
           outputImage_src := ''data:'' @ blob_mimeType b @ '';base64,'' @ blob_data b,
           outputImage_display := ''block'', downloadButton_display := ''block''\<rparr>))
     \<and> ((\<forall>p\<in>set (content_parts c). inlineData p = None) \<longrightarrow>
      combineImages prompt imageList apiKey e s =
        (Some (JsError msg_no_combined),
         s\<lparr>effects := effects s
                @ [GenerateContentCall (generateContentParams prompt imageList apiKey)]\<rparr>))"
proof (intro conjI impI)
  let ?s1 = "s\<lparr>effects := effects s
                @ [GenerateContentCall (generateContentParams prompt imageList apiKey)]\<rparr>"
  have run: "combineImages prompt imageList apiKey e s =
      (let (generatedImageFound, s2) = scanParts (content_parts c) ?s1
       in if \<not> generatedImageFound then (Some (JsError msg_no_combined), s2) else (None, s2))"
    using assms by (simp add: combineImages_def Let_def)
  {
    assume "k < length (content_parts c) \<and> inlineData (content_parts c ! k) = Some b
        \<and> (\<forall>j<k. inlineData (content_parts c ! j) = None)"
    then have "scanParts (content_parts c) ?s1 =
       (True, ?s1\<lparr>outputImage_src := ''data:'' @ blob_mimeType b @ '';base64,'' @ blob_data b,
                  outputImage_display := ''block'', downloadButton_display := ''block''\<rparr>)"
      using scanParts_first [of k "content_parts c" b ?s1] by blast
    then show "combineImages prompt imageList apiKey e s =
        (None,
         s\<lparr>effects := effects s
                @ [GenerateContentCall (generateContentParams prompt imageList apiKey)],
           outputImage_src := ''data:'' @ blob_mimeType b @ '';base64,'' @ blob_data b,
           outputImage_display := ''block'', downloadButton_display := ''block''\<rparr>)"
      unfolding run by simp
  }
  {
    assume "\<forall>p\<in>set (content_parts c). inlineData p = None"
    then have "scanParts (content_parts c) ?s1 = (False, ?s1)"
      by (rule scanParts_none)
    then show "combineImages prompt imageList apiKey e s =
        (Some (JsError msg_no_combined), ?s1)"
      unfolding run by simp
  }
qed

text \<open>A text part, then a PNG part, then a WebP part: the PNG part is rendered. A text
  part alone: the no-combined-image error.\<close>

theorem combine_first_inline_part_witness:
  "generateContent host0 (generateContentParams ''merge these'' [cat_png, hat_jpg] ''k-123'')
     = Inr \<lparr>candidates = [\<lparr>content_parts = answer_parts\<rparr>]\<rparr>
   \<and> inlineData (answer_parts ! 0) = None
   \<and> inlineData (answer_parts ! 1)
       = Some \<lparr>blob_mimeType = ''image/png'', blob_data = ''REVG''\<rparr>
   \<and> fst (combineImages ''merge these'' [cat_png, hat_jpg] ''k-123'' host0 merge_page) = None
   \<and> outputImage_src
        (snd (combineImages ''merge these'' [cat_png, hat_jpg] ''k-123'' host0 merge_page))
      = ''data:image/png;base64,REVG''
   \<and> fst (combineImages ''merge these'' [cat_png, hat_jpg] ''k-123'' host_text_only merge_page)
      = Some (JsError msg_no_combined)"
proof -
  let ?t = "\<lparr>content_parts = [\<lparr>inlineData = None, text_of = Some ''Sorry''\<rparr>]\<rparr>"
  have a': "generateContent host_text_only
             (generateContentParams ''merge these'' [cat_png, hat_jpg] ''k-123'')
           = Inr \<lparr>candidates = [?t]\<rparr>"
    by (simp add: host_defs)
  have b': "candidates \<lparr>candidates = [?t]\<rparr> = ?t # []" by simp
  have c': "\<forall>p\<in>set (content_parts ?t). inlineData p = None" by simp
  have fails: "fst (combineImages ''merge these'' [cat_png, hat_jpg] ''k-123'' host_text_only
                      merge_page) = Some (JsError msg_no_combined)"
    using c' combine_first_inline_part [OF a' b', of 0
        "\<lparr>blob_mimeType = [], blob_data = []\<rparr>" merge_page] by simp
  let ?r = "\<lparr>candidates = [\<lparr>content_parts = answer_parts\<rparr>]\<rparr>"
  have a: "generateContent host0
             (generateContentParams ''merge these'' [cat_png, hat_jpg] ''k-123'') = Inr ?r"
    by (simp add: host_defs)
  have b: "candidates ?r = \<lparr>content_parts = answer_parts\<rparr> # []" by simp
  have c: "(1::nat) < length (content_parts \<lparr>content_parts = answer_parts\<rparr>)
     \<and> inlineData (content_parts \<lparr>content_parts = answer_parts\<rparr> ! 1)
        = Some \<lparr>blob_mimeType = ''image/png'', blob_data = ''REVG''\<rparr>
     \<and> (\<forall>j<1. inlineData (content_parts \<lparr>content_parts = answer_parts\<rparr> ! j) = None)"
    by (simp add: answer_parts_def)
  show ?thesis
    using a c fails combine_first_inline_part [OF a b, of 1
        "\<lparr>blob_mimeType = ''image/png'', blob_data = ''REVG''\<rparr>" merge_page]
    by (simp add: answer_parts_def)
qed

subsection \<open>C4: the result of a generate request\<close>

text \<open>
  C4. A generate-mode request has started and the remote call answers with \<open>response\<close>.
  If the response has no result list or an empty one, the operation throws the
  no-image-produced error (the console error of the run records it), the status is that
  error behind the \<^verbatim>\<open>Error: \<close> label, and the output image and the download control
  stay hidden. If the response has at least one image, the output image source is the
  JPEG data URL of the first result's bytes, and the output image and the download
  control are shown.
\<close>

theorem generate_first_image_or_error:
  assumes "\<not> stopsBeforeRequest e s" and "activeTab s = Generate"
    and "generateAnswers e s response"
  shows
    "(let r = performGeneration e s in
      (generatedImages response = None \<or> generatedImages response = Some [] \<longrightarrow>
         runEffects s r =
           [SetStatusText msg_generating, requestOf e s,
            ConsoleError msg_console (JsError msg_no_images),
            ShowStatusError (''Error: '' @ msg_no_images)]
         \<and> statusEl (snd r) = InnerHTML (errorSpan (''Error: '' @ msg_no_images))
         \<and> outputImage_display (snd r) = ''none''
         \<and> downloadButton_display (snd r) = ''none''
         \<and> outputImage_src (snd r) = outputImage_src s)
      \<and> (generatedImages response = Some (img # rest) \<longrightarrow>
         runEffects s r =
           [SetStatusText msg_generating, requestOf e s, SetStatusText msg_success]
         \<and> statusEl (snd r) = InnerText msg_success
         \<and> outputImage_src (snd r) = ''data:image/jpeg;base64,'' @ imageBytes img
         \<and> outputImage_display (snd r) = ''block''
         \<and> downloadButton_display (snd r) = ''block''))"
proof -
  obtain k where key: "API_KEY e = Some k"
    using started_has_key [OF assms(1)] by blast
  let ?p = "trim (activePrompt s)"
  have ans: "generateImages e (generateImagesParams ?p k) = Inr response"
    using assms(3) key by (simp add: generateAnswers_def)
  have req: "requestOf e s = GenerateImagesCall (generateImagesParams ?p k)"
    using assms(2) key by (simp add: requestOf_def)
  have msg: "startMessage s = msg_generating"
    using assms(2) by (simp add: startMessage_def)
  note run = trigger_started_try [OF assms(1) key, unfolded msg]
  show ?thesis
    unfolding Let_def
  proof (intro conjI impI)
    assume "generatedImages response = None \<or> generatedImages response = Some []"
    note body = generateImage_empty [OF ans this]
    have r: "performGeneration e s =
       (None, setControlsDisabled False
          (showStatusError (''Error: '' @ msg_no_images)
             ((setControlsDisabled True
                 ((setStatusText msg_generating s)
                   \<lparr>outputImage_display := ''none'', downloadButton_display := ''none''\<rparr>))
              \<lparr>effects := effects s @ [SetStatusText msg_generating, requestOf e s,
                                         ConsoleError msg_console (JsError msg_no_images)]\<rparr>)))"
      unfolding run tryRequest_def
      using assms(2)
      by (simp add: body catchBlock_eq no_images_unclassified req setStatusText_def)
    show "runEffects s (performGeneration e s) =
           [SetStatusText msg_generating, requestOf e s,
            ConsoleError msg_console (JsError msg_no_images),
            ShowStatusError (''Error: '' @ msg_no_images)]"
      and "statusEl (snd (performGeneration e s))
           = InnerHTML (errorSpan (''Error: '' @ msg_no_images))"
      and "outputImage_display (snd (performGeneration e s)) = ''none''"
      and "downloadButton_display (snd (performGeneration e s)) = ''none''"
      and "outputImage_src (snd (performGeneration e s)) = outputImage_src s"
      unfolding r runEffects_def
      by (simp_all add: showStatusError_def setControlsDisabled_def setStatusText_def)
  next
    assume "generatedImages response = Some (img # rest)"
    note body = generateImage_first [OF ans this]
    have r: "performGeneration e s =
       (None, setControlsDisabled False
          (setStatusText msg_success
             ((setControlsDisabled True
                 ((setStatusText msg_generating s)
                   \<lparr>outputImage_display := ''none'', downloadButton_display := ''none''\<rparr>))
              \<lparr>effects := effects s @ [SetStatusText msg_generating, requestOf e s],
                outputImage_src := ''data:image/jpeg;base64,'' @ imageBytes img,
                outputImage_display := ''block'', downloadButton_display := ''block''\<rparr>)))"
      unfolding run tryRequest_def
      using assms(2)
      by (simp add: body req setStatusText_def)
    show "runEffects s (performGeneration e s) =
           [SetStatusText msg_generating, requestOf e s, SetStatusText msg_success]"
      and "statusEl (snd (performGeneration e s)) = InnerText msg_success"
      and "outputImage_src (snd (performGeneration e s))
           = ''data:image/jpeg;base64,'' @ imageBytes img"
      and "outputImage_display (snd (performGeneration e s)) = ''block''"
      and "downloadButton_display (snd (performGeneration e s)) = ''block''"
      unfolding r runEffects_def
      by (simp_all add: setControlsDisabled_def setStatusText_def)
  qed
qed

theorem generate_first_image_or_error_witness:
  "\<not> stopsBeforeRequest host0 fox_page \<and> activeTab fox_page = Generate
   \<and> generateAnswers host0 fox_page \<lparr>generatedImages = Some [\<lparr>imageBytes = ''QUJD''\<rparr>]\<rparr>
   \<and> outputImage_src (snd (performGeneration host0 fox_page)) = ''data:image/jpeg;base64,QUJD''
   \<and> outputImage_display (snd (performGeneration host0 fox_page)) = ''block''
   \<and> downloadButton_display (snd (performGeneration host0 fox_page)) = ''block''
   \<and> \<not> stopsBeforeRequest host_no_images fox_page
   \<and> generateAnswers host_no_images fox_page \<lparr>generatedImages = Some []\<rparr>
   \<and> outputImage_display fox_page = ''block''
   \<and> outputImage_display (snd (performGeneration host_no_images fox_page)) = ''none''
   \<and> downloadButton_display (snd (performGeneration host_no_images fox_page)) = ''none''"
proof -
  have a: "\<not> stopsBeforeRequest host0 fox_page"
    and a': "\<not> stopsBeforeRequest host_no_images fox_page"
    by (simp_all add: stopsBeforeRequest_def credentialAbsent_def activePrompt_def blank_def
        isWhiteSpace_def page_defs host_defs)
  have b: "activeTab fox_page = Generate" and d: "outputImage_display fox_page = ''block''"
    by (simp_all add: page_defs)
  have c: "generateAnswers host0 fox_page \<lparr>generatedImages = Some [\<lparr>imageBytes = ''QUJD''\<rparr>]\<rparr>"
    and c': "generateAnswers host_no_images fox_page \<lparr>generatedImages = Some []\<rparr>"
    by (simp_all add: generateAnswers_def host_defs)
  show ?thesis
    using a a' b c c' d
      generate_first_image_or_error [OF a b c, of "\<lparr>imageBytes = ''QUJD''\<rparr>" "[]"]
      generate_first_image_or_error [OF a' b c']
    by (simp add: Let_def)
qed

subsection \<open>C5: no credential\<close>

text \<open>
  C5. With the credential absent (undefined or empty), the trigger shows the
  configuration-missing message, then calls the host's key-selection dialog, or shows the
  fallback message when the host has none, and stops: nothing but the status and the
  effects changes, and no network call is made. The run rejects only if the dialog does.
\<close>

theorem missing_credential_stops:
  assumes "credentialAbsent e"
  shows "runEffects s (performGeneration e s) = ShowStatusError msg_no_key # dialogEffects e
    \<and> networkCalls (snd (performGeneration e s)) = networkCalls s
    \<and> snd (performGeneration e s) =
        s\<lparr>statusEl := InnerHTML (errorSpan (case openSelectKey e of
                                             Some r \<Rightarrow> msg_no_key
                                           | None \<Rightarrow> msg_dialog_unavailable)),
          effects := effects s @ ShowStatusError msg_no_key # dialogEffects e\<rparr>
    \<and> fst (performGeneration e s) = (case openSelectKey e of Some r \<Rightarrow> r | None \<Rightarrow> None)"
  unfolding trigger_absent [OF assms] runEffects_def
  by (simp add: openApiKeyDialog_eq showStatusError_def networkCalls_def dialogEffects_def
      split: option.splits)

theorem missing_credential_stops_witness:
  "credentialAbsent host_no_key
   \<and> runEffects fox_page (performGeneration host_no_key fox_page)
       = [ShowStatusError msg_no_key, OpenSelectKey]
   \<and> outputImage_src (snd (performGeneration host_no_key fox_page))
       = ''data:image/jpeg;base64,AAAA''
   \<and> credentialAbsent host_no_key_no_dialog
   \<and> runEffects fox_page (performGeneration host_no_key_no_dialog fox_page)
       = [ShowStatusError msg_no_key, ShowStatusError msg_dialog_unavailable]"
proof -
  have a: "credentialAbsent host_no_key" and b: "credentialAbsent host_no_key_no_dialog"
    by (simp_all add: credentialAbsent_def host_defs)
  show ?thesis
    using a b missing_credential_stops [OF a, of fox_page]
      missing_credential_stops [OF b, of fox_page]
    by (simp add: dialogEffects_def host_defs fox_page_def)
qed

subsection \<open>C6: the controls after a request\<close>

text \<open>
  C6. The \<^verbatim>\<open>try\<close> statement ends with all controls enabled from any state, for every
  outcome of the remote call, of the rendering and of the failure handling (also when the
  dialog called from the \<^verbatim>\<open>catch\<close> block rejects). A started request runs the statement
  on a state with all controls disabled; so every trigger that passes the checks ends
  with all controls enabled, on the same upload areas.
\<close>

theorem controls_reenabled:
  "controlsEnabled (snd (tryRequest prompt apiKey e s))
   \<and> (\<exists>s'. controlsDisabled s' \<and> startRequest prompt apiKey e s = tryRequest prompt apiKey e s')
   \<and> controlsEnabled (snd (startRequest prompt apiKey e s))
   \<and> (\<not> stopsBeforeRequest e s \<longrightarrow>
        controlsEnabled (snd (performGeneration e s))
        \<and> length (areas (snd (performGeneration e s))) = length (areas s))"
proof -
  have a: "controlsEnabled (snd (tryRequest p k e' s'))" for p k e' s'
    by (rule controlsEnabled_tryRequest)
  have b: "\<exists>s'. controlsDisabled s' \<and> startRequest prompt apiKey e s = tryRequest prompt apiKey e s'"
    unfolding startRequest_def using controlsDisabled_after by blast
  have "controlsEnabled (snd (performGeneration e s))
        \<and> length (areas (snd (performGeneration e s))) = length (areas s)"
    if st: "\<not> stopsBeforeRequest e s"
  proof -
    obtain k where key: "API_KEY e = Some k" using started_has_key [OF st] by blast
    show ?thesis
      unfolding trigger_started_try [OF st key] by (simp add: a setStatusText_def)
  qed
  then show ?thesis using b by (simp add: a startRequest_def)
qed

text \<open>Combine mode, the remote call rejects with an invalid-key message, and the dialog
  called from the \<^verbatim>\<open>catch\<close> block rejects too: the trigger rejects, with the controls
  enabled.\<close>

theorem controls_reenabled_witness:
  "\<not> stopsBeforeRequest (host_rejecting ''API key not valid. Please pass a valid API key.'')
       merge_page
   \<and> fst (performGeneration (host_rejecting ''API key not valid. Please pass a valid API key.'')
           merge_page)
       = Some (JsError ''dialog closed'')
   \<and> controlsEnabled
        (snd (performGeneration
                (host_rejecting ''API key not valid. Please pass a valid API key.'') merge_page))"
proof -
  let ?m = "''API key not valid. Please pass a valid API key.''"
  have st: "\<not> stopsBeforeRequest (host_rejecting ?m) merge_page"
    by (simp add: stopsBeforeRequest_def credentialAbsent_def activePrompt_def blank_def
        isWhiteSpace_def populatedSlots_def page_defs handler_defs host_defs)
  have rej: "remoteRejects (host_rejecting ?m) merge_page (JsError ?m)"
    by (simp add: remoteRejects_def page_defs handler_defs host_defs)
  have "fst (performGeneration (host_rejecting ?m) merge_page) = Some (JsError ''dialog closed'')"
    unfolding rejected_run [OF st rej] catchBlock_eq Let_def
    using key_not_valid_classified by (simp add: openApiKeyDialog_eq host_defs)
  then show ?thesis
    using st controls_reenabled [of _ _ "host_rejecting ?m" merge_page] by simp
qed

subsection \<open>C7: a blank prompt\<close>

text \<open>
  C7, as the code has it. With a credential configured, a prompt that is empty or has
  white space only, and at least two populated slots when the mode is combine, the run
  is exactly the prompt validation message of the active mode, and no network call is
  made. Without a credential the trigger stops earlier, at the configuration-missing
  message.
\<close>

theorem blank_prompt_rejected:
  assumes "\<not> credentialAbsent e" and "blank (activePrompt s)"
    and "activeTab s = Combine \<longrightarrow> 2 \<le> populatedSlots s"
  shows "performGeneration e s =
      (None, showStatusError
               (if activeTab s = Generate then msg_need_prompt else msg_need_combine_prompt) s)
    \<and> networkCalls (snd (performGeneration e s)) = networkCalls s"
proof (cases "activeTab s")
  case Generate
  with assms show ?thesis by (simp add: trigger_generate_blank activePrompt_def)
next
  case Combine
  with assms show ?thesis by (simp add: trigger_combine_blank activePrompt_def)
qed

theorem blank_prompt_rejected_witness:
  "\<not> credentialAbsent host0 \<and> blank (activePrompt blank_page)
   \<and> activeTab blank_page = Generate
   \<and> performGeneration host0 blank_page = (None, showStatusError msg_need_prompt blank_page)
   \<and> networkCalls (snd (performGeneration host0 blank_page)) = []"
proof -
  have a: "\<not> credentialAbsent host0"
    by (simp add: credentialAbsent_def host_defs)
  have b: "blank (activePrompt blank_page)" and c: "activeTab blank_page = Generate"
    and d: "networkCalls blank_page = []"
    by (simp_all add: activePrompt_def blank_def isWhiteSpace_def networkCalls_def page_defs)
  from c have e: "activeTab blank_page = Combine \<longrightarrow> 2 \<le> populatedSlots blank_page"
    by simp
  show ?thesis
    using a b c d blank_prompt_rejected [OF a b e] by simp
qed

text \<open>The claim as stated fails where no credential is configured: generate mode, a
  prompt of two spaces, and the only status shown is the configuration-missing message.\<close>

theorem blank_prompt_rejected_counterexample:
  "blank (activePrompt blank_page) \<and> activeTab blank_page = Generate
   \<and> runEffects blank_page (performGeneration host_no_key blank_page)
       = [ShowStatusError msg_no_key, OpenSelectKey]
   \<and> statusEl (snd (performGeneration host_no_key blank_page))
       = InnerHTML (errorSpan msg_no_key)
   \<and> msg_no_key \<noteq> msg_need_prompt"
proof -
  have b: "blank (activePrompt blank_page)" and c: "activeTab blank_page = Generate"
    by (simp_all add: activePrompt_def blank_def isWhiteSpace_def page_defs)
  have k: "credentialAbsent host_no_key"
    by (simp add: credentialAbsent_def host_defs)
  have "performGeneration host_no_key blank_page
        = openApiKeyDialog host_no_key (showStatusError msg_no_key blank_page)"
    by (rule trigger_absent [OF k])
  then show ?thesis
    using b c no_key_is_not_need_prompt
    by (simp add: openApiKeyDialog_eq runEffects_def showStatusError_def dialogEffects_def
        host_defs)
qed

subsection \<open>C8: switching tabs\<close>

text \<open>
  C8. A tab switch sets the active mode, the two tab classes, the two panel displays and
  the label of the primary action, and nothing else. So after any sequence of tab
  switches the slot sequence and both prompt texts are what they were, and switching to
  the same mode a second time changes nothing.
\<close>

theorem switchTab_keeps_uploads_and_prompts:
  "switchTab t s =
     s\<lparr>activeTab := t,
       tabGenerate_className := (if t = Generate then class_tab_active else class_tab_inactive),
       tabCombine_className := (if t = Generate then class_tab_inactive else class_tab_active),
       panelGenerate_display := (if t = Generate then ''block'' else ''none''),
       panelCombine_display := (if t = Generate then ''none'' else ''block''),
       generateButton_textContent := (if t = Generate then ''Generar'' else ''Combinar'')\<rparr>
   \<and> images (run (map TabClick ts) s) = images s
   \<and> promptGenerateEl_value (run (map TabClick ts) s) = promptGenerateEl_value s
   \<and> promptCombineEl_value (run (map TabClick ts) s) = promptCombineEl_value s
   \<and> switchTab t (switchTab t s) = switchTab t s"
proof -
  have kept: "images (run (map TabClick ts) s) = images s
      \<and> promptGenerateEl_value (run (map TabClick ts) s) = promptGenerateEl_value s
      \<and> promptCombineEl_value (run (map TabClick ts) s) = promptCombineEl_value s"
    by (induction ts arbitrary: s) (simp_all add: switchTab_def)
  have twice: "switchTab t (switchTab t s) = switchTab t s"
    by (simp add: switchTab_def)
  have only: "switchTab t s =
     s\<lparr>activeTab := t,
       tabGenerate_className := (if t = Generate then class_tab_active else class_tab_inactive),
       tabCombine_className := (if t = Generate then class_tab_inactive else class_tab_active),
       panelGenerate_display := (if t = Generate then ''block'' else ''none''),
       panelCombine_display := (if t = Generate then ''none'' else ''block''),
       generateButton_textContent := (if t = Generate then ''Generar'' else ''Combinar'')\<rparr>"
    by (simp add: switchTab_def)
  from only kept twice show ?thesis by (intro conjI) simp_all
qed

theorem switchTab_keeps_uploads_and_prompts_witness:
  "images (run (map TabClick [Generate, Combine, Combine]) merge_page)
     = [Some cat_png, Some hat_jpg]
   \<and> promptCombineEl_value (run (map TabClick [Generate, Combine, Combine]) merge_page)
     = ''merge these''"
proof -
  have "images merge_page = [Some cat_png, Some hat_jpg]"
    and "promptCombineEl_value merge_page = ''merge these''"
    by (simp_all add: merge_page_def ready_page_def page0_def blank_area_def handler_defs)
  then show ?thesis
    using switchTab_keeps_uploads_and_prompts
            [of Generate merge_page "[Generate, Combine, Combine]", THEN conjunct2]
    by (simp del: run.simps list.map)
qed

subsection \<open>C9: the slot sequence never shrinks\<close>

text \<open>
  C9. No handler shortens the slot sequence, from any state, and so no sequence of events
  does. The start-up loop makes one empty slot per upload area of the page; and in every
  state reached from there, each handler leaves the sequence as it is, appends one empty
  slot, or replaces the value at an existing index.
\<close>

theorem slots_never_shrink:
  "length (images s) \<le> length (images (handle ev s))
   \<and> length (images s) \<le> length (images (run evs s))
   \<and> images (setupExisting s0) = replicate (length (areas s0)) None
   \<and> (let r = run evs (setupExisting s0) in
        images (handle ev r) = images r \<or> images (handle ev r) = images r @ [None]
        \<or> (\<exists>i d. i < length (images r) \<and> images (handle ev r) = (images r)[i := Some d]))"
proof -
  have "indexes_ok (run evs (setupExisting s0))"
    by (rule run_indexes_ok) (rule indexes_ok_setupExisting)
  then show ?thesis
    using handle_shape [of "run evs (setupExisting s0)" ev]
    by (simp add: Let_def handle_length run_length images_setupExisting)
qed

theorem slots_never_shrink_witness:
  "images (setupExisting page0) = [None, None]
   \<and> length (images ready_page)
       \<le> length (images (run [AddImageClick, FileDecoded 2 cat_png, FileDecoded 0 hat_jpg]
                              ready_page))
   \<and> images (run [AddImageClick, FileDecoded 2 cat_png, FileDecoded 0 hat_jpg] ready_page)
       = [Some hat_jpg, None, Some cat_png]"
proof -
  have "images (run [AddImageClick, FileDecoded 2 cat_png, FileDecoded 0 hat_jpg] ready_page)
       = [Some hat_jpg, None, Some cat_png]"
    by (simp add: ready_page_def page0_def blank_area_def handler_defs)
  then show ?thesis
    using slots_never_shrink
            [of ready_page AddImageClick
                "[AddImageClick, FileDecoded 2 cat_png, FileDecoded 0 hat_jpg]" page0]
    by (simp add: page0_def blank_area_def)
qed

subsection \<open>C10: a pre-request failure leaves the output alone\<close>

text \<open>
  C10. When the trigger stops before a request (no credential, a blank prompt, or fewer
  than two populated slots in combine mode), only the status and the effects change: the
  display of the output image and of the download control, and the image source, are what
  they were, so an output image on show stays on show; and no network call is made.
\<close>

theorem pre_request_failure_keeps_output:
  assumes "stopsBeforeRequest e s"
  shows "outputImage_display (snd (performGeneration e s)) = outputImage_display s
    \<and> downloadButton_display (snd (performGeneration e s)) = downloadButton_display s
    \<and> outputImage_src (snd (performGeneration e s)) = outputImage_src s
    \<and> networkCalls (snd (performGeneration e s)) = networkCalls s
    \<and> snd (performGeneration e s) =
        s\<lparr>statusEl := statusEl (snd (performGeneration e s)),
          effects := effects (snd (performGeneration e s))\<rparr>"
proof -
  consider (absent) "credentialAbsent e"
    | (gen) "\<not> credentialAbsent e" "activeTab s = Generate" "blank (promptGenerateEl_value s)"
    | (few) "\<not> credentialAbsent e" "activeTab s = Combine" "populatedSlots s < 2"
    | (comb) "\<not> credentialAbsent e" "activeTab s = Combine" "2 \<le> populatedSlots s"
        "blank (promptCombineEl_value s)"
    using assms
    by (cases "activeTab s"; cases "populatedSlots s < 2"; cases "credentialAbsent e")
       (auto simp: stopsBeforeRequest_def activePrompt_def)
  then show ?thesis
  proof cases
    case absent
    then show ?thesis
      by (simp add: trigger_absent openApiKeyDialog_eq showStatusError_def networkCalls_def
          dialogEffects_def split: option.splits)
  next
    case gen
    then show ?thesis
      by (simp add: trigger_generate_blank showStatusError_def networkCalls_def)
  next
    case few
    then show ?thesis
      by (simp add: trigger_combine_few showStatusError_def networkCalls_def)
  next
    case comb
    then show ?thesis
      by (simp add: trigger_combine_blank showStatusError_def networkCalls_def)
  qed
qed

text \<open>An output image is on show, the prompt is then emptied, and the trigger stops at
  the prompt validation: the image and the download control stay on show.\<close>

theorem pre_request_failure_keeps_output_witness:
  "stopsBeforeRequest host0 (fox_page\<lparr>promptGenerateEl_value := []\<rparr>)
   \<and> outputImage_display
        (snd (performGeneration host0 (fox_page\<lparr>promptGenerateEl_value := []\<rparr>))) = ''block''
   \<and> downloadButton_display
        (snd (performGeneration host0 (fox_page\<lparr>promptGenerateEl_value := []\<rparr>))) = ''block''"
proof -
  have a: "stopsBeforeRequest host0 (fox_page\<lparr>promptGenerateEl_value := []\<rparr>)"
    by (simp add: stopsBeforeRequest_def activePrompt_def blank_def page_defs)
  show ?thesis
    using a pre_request_failure_keeps_output [OF a] by (simp add: fox_page_def)
qed

end
